theory Spec2Isabelle
  imports Complex_Main
begin

section \<open>JavaScript values used by the prompt builders and the API handlers\<close>

text \<open>
  Strings are byte lists: an ASCII string is written as a literal, and the Korean
  text of the sources is written as its UTF-8 bytes. Substring search on UTF-8
  bytes agrees with \<^verbatim>\<open>String.prototype.includes\<close> on well-formed
  strings, because UTF-8 is self-synchronising.

  An optional field (\<^verbatim>\<open>customEnvironment?: string\<close>) is a
  \<open>string option\<close>, with \<open>None\<close> for \<^verbatim>\<open>undefined\<close>.
  JavaScript's truthiness of such a value is \<open>truthy\<close>: \<^verbatim>\<open>undefined\<close>
  and the empty string are falsy, every other string is truthy.
\<close>

definition truthy :: "string option \<Rightarrow> bool" where
  "truthy v = (case v of None \<Rightarrow> False | Some s \<Rightarrow> s \<noteq> [])"

text \<open>\<^verbatim>\<open>a || b\<close> on optional strings.\<close>

definition js_or :: "string option \<Rightarrow> string option \<Rightarrow> string option" where
  "js_or a b = (if truthy a then a else b)"

text \<open>The string of an optional string that has passed a truthiness test.\<close>

definition str_of :: "string option \<Rightarrow> string" where
  "str_of v = (case v of None \<Rightarrow> [] | Some s \<Rightarrow> s)"

text \<open>
  \<^verbatim>\<open>Array.prototype.join\<close> on an array of strings: the empty array
  gives the empty string, the separator stands between neighbours only.
\<close>

fun join :: "string \<Rightarrow> string list \<Rightarrow> string" where
  "join sep [] = []"
| "join sep [x] = x"
| "join sep (x # y # ys) = x @ sep @ join sep (y # ys)"

text \<open>
  \<^verbatim>\<open>.filter(Boolean)\<close> on an array of strings keeps the non-empty
  ones; on an array that may hold \<^verbatim>\<open>undefined\<close> it drops that too.
\<close>

definition filter_Boolean :: "string list \<Rightarrow> string list" where
  "filter_Boolean xs = filter (\<lambda>s. s \<noteq> []) xs"

fun filter_Boolean_opt :: "string option list \<Rightarrow> string list" where
  "filter_Boolean_opt [] = []"
| "filter_Boolean_opt (None # xs) = filter_Boolean_opt xs"
| "filter_Boolean_opt (Some s # xs) =
     (if s = [] then filter_Boolean_opt xs else s # filter_Boolean_opt xs)"

text \<open>
  \<^verbatim>\<open>haystack.includes(needle)\<close>: the needle occurs as a contiguous
  run of the haystack.
\<close>

fun starts_with :: "string \<Rightarrow> string \<Rightarrow> bool" where
  "starts_with s [] = True"
| "starts_with [] (c # cs) = False"
| "starts_with (x # xs) (c # cs) = (x = c \<and> starts_with xs cs)"

fun includes_str :: "string \<Rightarrow> string \<Rightarrow> bool" where
  "includes_str [] needle = (needle = [])"
| "includes_str (x # xs) needle = (starts_with (x # xs) needle \<or> includes_str xs needle)"

text \<open>
  \<^verbatim>\<open>String.prototype.trim\<close> strips the white space and the line terminators
  of ECMAScript from both ends: TAB, LF, VT, FF, CR, SPACE, U+00A0, U+1680, U+2000 to
  U+200A, U+2028, U+2029, U+202F, U+205F, U+3000 and U+FEFF, here as their UTF-8 bytes.
  No such byte sequence begins or ends inside the encoding of another character.
\<close>

definition white_space :: "string list" where
  "white_space =
     [[CHR 0x09], [CHR 0x0A], [CHR 0x0B], [CHR 0x0C], [CHR 0x0D], [CHR 0x20],
      [CHR 0xC2, CHR 0xA0],
      [CHR 0xE1, CHR 0x9A, CHR 0x80],
      [CHR 0xE2, CHR 0x80, CHR 0x80], [CHR 0xE2, CHR 0x80, CHR 0x81],
      [CHR 0xE2, CHR 0x80, CHR 0x82], [CHR 0xE2, CHR 0x80, CHR 0x83],
      [CHR 0xE2, CHR 0x80, CHR 0x84], [CHR 0xE2, CHR 0x80, CHR 0x85],
      [CHR 0xE2, CHR 0x80, CHR 0x86], [CHR 0xE2, CHR 0x80, CHR 0x87],
      [CHR 0xE2, CHR 0x80, CHR 0x88], [CHR 0xE2, CHR 0x80, CHR 0x89],
      [CHR 0xE2, CHR 0x80, CHR 0x8A],
      [CHR 0xE2, CHR 0x80, CHR 0xA8], [CHR 0xE2, CHR 0x80, CHR 0xA9],
      [CHR 0xE2, CHR 0x80, CHR 0xAF],
      [CHR 0xE2, CHR 0x81, CHR 0x9F],
      [CHR 0xE3, CHR 0x80, CHR 0x80],
      [CHR 0xEF, CHR 0xBB, CHR 0xBF]]"

text \<open>
  \<open>drop_leading ws s\<close> removes from the front of \<open>s\<close> the members of \<open>ws\<close>, as
  long as one of them is a prefix.
\<close>

function drop_leading :: "string list \<Rightarrow> string \<Rightarrow> string" where
  "drop_leading ws s =
     (case find (\<lambda>w. w \<noteq> [] \<and> starts_with s w) ws of
        None \<Rightarrow> s
      | Some w \<Rightarrow> drop_leading ws (drop (length w) s))"
  by pat_completeness auto
termination
proof (relation "measure (\<lambda>(ws, s). length s)")
  show "wf (measure (\<lambda>(ws, s). length s))" by simp
next
  fix ws :: "string list" and s w :: string
  assume "find (\<lambda>w. w \<noteq> [] \<and> starts_with s w) ws = Some w"
  then have "w \<noteq> []" and "starts_with s w"
    by (auto simp: find_Some_iff)
  then have "s \<noteq> []" by (cases s; cases w) auto
  with \<open>w \<noteq> []\<close> show "((ws, drop (length w) s), (ws, s)) \<in> measure (\<lambda>(ws, s). length s)"
    by simp
qed

declare drop_leading.simps [simp del]

definition trimStart :: "string \<Rightarrow> string" where
  "trimStart s = drop_leading white_space s"

definition trimEnd :: "string \<Rightarrow> string" where
  "trimEnd s = rev (drop_leading (map rev white_space) (rev s))"

definition trim :: "string \<Rightarrow> string" where
  "trim s = trimEnd (trimStart s)"

text \<open>
  \<^verbatim>\<open>String.prototype.toLowerCase\<close> follows the case mapping of Unicode in the
  version of the engine, which the sources do not fix: the functions that call it take
  it as the parameter \<open>toLowerCase\<close>, and what is proved of them holds for every
  such function. \<open>ascii_toLowerCase\<close> maps the letters A to Z and nothing else,
  as the mapping of Unicode does on ASCII strings, and serves to run examples on such
  strings.
\<close>

definition lower_char :: "char \<Rightarrow> char" where
  \<comment> \<open>Setting bit 5 adds 32 to a code between 65 and 90.\<close>
  "lower_char c =
     (if 65 \<le> (of_char c :: nat) \<and> (of_char c :: nat) \<le> 90
      then (case c of Char b0 b1 b2 b3 b4 b5 b6 b7 \<Rightarrow> Char b0 b1 b2 b3 b4 True b6 b7)
      else c)"

definition ascii_toLowerCase :: "string \<Rightarrow> string" where
  "ascii_toLowerCase s = map lower_char s"

text \<open>
  \<^verbatim>\<open>String(n)\<close> for a non-negative integer: its decimal digits.
  \<open>digit_char\<close> is applied to numbers below 10 only.
\<close>

definition digit_char :: "nat \<Rightarrow> char" where
  "digit_char d = ''0123456789'' ! d"

fun String_of_nat :: "nat \<Rightarrow> string" where
  "String_of_nat n =
     (if n < 10 then [digit_char n]
      else String_of_nat (n div 10) @ [digit_char (n mod 10)])"

declare String_of_nat.simps [simp del]

section \<open>Image prompt presets (constants/imagePromptPresets.ts)\<close>

text \<open>
  Every preset key type of the source is a union of string literals, here a datatype
  with one constructor per key. Each table \<^verbatim>\<open>Record<Key, Preset>\<close> is
  read by the builders only through its \<^verbatim>\<open>prompt\<close> field, so the table
  \<^verbatim>\<open>T\<close> is modelled by the function \<open>T_prompt\<close> that gives
  \<^verbatim>\<open>T[key].prompt\<close>.
\<close>

datatype ShotTypeKey =
    Shot_extreme_close_up
  | Shot_close_up
  | Shot_medium_close_up
  | Shot_medium
  | Shot_medium_wide
  | Shot_wide
  | Shot_extreme_wide

datatype CameraAngleKey =
    Angle_eye_level
  | Angle_low_angle
  | Angle_high_angle
  | Angle_birds_eye
  | Angle_worms_eye
  | Angle_dutch
  | Angle_over_shoulder

datatype LensKey =
    Lens_24mm_wide
  | Lens_35mm_standard
  | Lens_50mm_normal
  | Lens_85mm_portrait
  | Lens_135mm_telephoto
  | Lens_200mm_compressed

datatype LightingKey =
    Light_natural_soft
  | Light_natural_golden
  | Light_natural_blue
  | Light_studio_soft
  | Light_studio_dramatic
  | Light_rim_light
  | Light_neon
  | Light_low_key
  | Light_high_key
  | Light_silhouette

datatype EnvironmentKey =
    Env_studio_white
  | Env_studio_dark
  | Env_indoor_modern
  | Env_indoor_cozy
  | Env_indoor_luxury
  | Env_urban_street
  | Env_urban_night
  | Env_urban_rain
  | Env_nature_forest
  | Env_nature_beach
  | Env_nature_mountain

datatype MaterialKey =
    Mat_skin_natural
  | Mat_skin_dewy
  | Mat_fabric_silk
  | Mat_fabric_cotton
  | Mat_fabric_leather
  | Mat_metal_chrome
  | Mat_metal_matte
  | Mat_glass_clear
  | Mat_water_droplets
  | Mat_texture_rough

datatype StyleKey =
    Style_photoreal_cinematic
  | Style_photoreal_editorial
  | Style_photoreal_documentary
  | Style_photoreal_portrait
  | Style_film_kodak
  | Style_film_noir
  | Style_clean_minimal
  | Style_moody_dramatic

datatype QualityKey =
    Q_high_detail
  | Q_8k
  | Q_sharp
  | Q_clean_edges
  | Q_print_ready

datatype FramingKey =
    Frame_rule_of_thirds_left
  | Frame_rule_of_thirds_right
  | Frame_center
  | Frame_negative_space_top
  | Frame_negative_space_side
  | Frame_foreground_frame

fun SHOT_TYPES_prompt :: "ShotTypeKey \<Rightarrow> string" where
  "SHOT_TYPES_prompt Shot_extreme_close_up =
     ''extreme close-up shot''"
| "SHOT_TYPES_prompt Shot_close_up =
     ''close-up shot''"
| "SHOT_TYPES_prompt Shot_medium_close_up =
     ''medium close-up shot''"
| "SHOT_TYPES_prompt Shot_medium =
     ''medium shot''"
| "SHOT_TYPES_prompt Shot_medium_wide =
     ''medium wide shot''"
| "SHOT_TYPES_prompt Shot_wide =
     ''wide shot''"
| "SHOT_TYPES_prompt Shot_extreme_wide =
     ''extreme wide establishing shot''"

fun CAMERA_ANGLES_prompt :: "CameraAngleKey \<Rightarrow> string" where
  "CAMERA_ANGLES_prompt Angle_eye_level =
     ''eye-level angle''"
| "CAMERA_ANGLES_prompt Angle_low_angle =
     ''low-angle shot looking up''"
| "CAMERA_ANGLES_prompt Angle_high_angle =
     ''high-angle shot looking down''"
| "CAMERA_ANGLES_prompt Angle_birds_eye =
     ''bird's eye view from directly above''"
| "CAMERA_ANGLES_prompt Angle_worms_eye =
     ''worm's eye view from ground level''"
| "CAMERA_ANGLES_prompt Angle_dutch =
     ''dutch angle tilted frame''"
| "CAMERA_ANGLES_prompt Angle_over_shoulder =
     ''over-the-shoulder shot''"

fun LENSES_prompt :: "LensKey \<Rightarrow> string" where
  "LENSES_prompt Lens_24mm_wide =
     ''24mm wide-angle lens, f/2.8''"
| "LENSES_prompt Lens_35mm_standard =
     ''35mm lens, f/1.8, shallow depth of field''"
| "LENSES_prompt Lens_50mm_normal =
     ''50mm lens, f/1.4, natural perspective''"
| "LENSES_prompt Lens_85mm_portrait =
     ''85mm portrait lens, f/1.8, creamy bokeh background''"
| "LENSES_prompt Lens_135mm_telephoto =
     ''135mm telephoto lens, f/2, compressed perspective''"
| "LENSES_prompt Lens_200mm_compressed =
     ''200mm telephoto lens, heavily compressed perspective''"

fun LIGHTINGS_prompt :: "LightingKey \<Rightarrow> string" where
  "LIGHTINGS_prompt Light_natural_soft =
     ''soft natural light, diffused daylight, gentle shadows''"
| "LIGHTINGS_prompt Light_natural_golden =
     ''golden hour warm sunlight, long shadows, orange rim light''"
| "LIGHTINGS_prompt Light_natural_blue =
     ''blue hour twilight, cool ambient light, magical atmosphere''"
| "LIGHTINGS_prompt Light_studio_soft =
     ''professional softbox lighting, even illumination, minimal shadows''"
| "LIGHTINGS_prompt Light_studio_dramatic =
     ''dramatic studio lighting, strong key light, deep shadows''"
| "LIGHTINGS_prompt Light_rim_light =
     ''strong rim light from behind, edge lighting, silhouette highlights''"
| "LIGHTINGS_prompt Light_neon =
     ''colorful neon lighting, red and blue rim lights, urban night atmosphere''"
| "LIGHTINGS_prompt Light_low_key =
     ''low-key lighting, mostly shadows, single light source, film noir''"
| "LIGHTINGS_prompt Light_high_key =
     ''high-key lighting, bright and even, minimal shadows, clean look''"
| "LIGHTINGS_prompt Light_silhouette =
     ''backlit silhouette, strong backlight, subject in shadow''"

fun ENVIRONMENTS_prompt :: "EnvironmentKey \<Rightarrow> string" where
  "ENVIRONMENTS_prompt Env_studio_white =
     ''clean white studio background, professional photography setup, seamless backdrop''"
| "ENVIRONMENTS_prompt Env_studio_dark =
     ''dark studio background, black backdrop, dramatic lighting setup''"
| "ENVIRONMENTS_prompt Env_indoor_modern =
     ''modern minimalist interior, clean lines, contemporary furniture, large windows''"
| "ENVIRONMENTS_prompt Env_indoor_cozy =
     ''cozy warm interior, soft textures, warm lighting, comfortable atmosphere''"
| "ENVIRONMENTS_prompt Env_indoor_luxury =
     ''luxurious elegant interior, high-end decor, sophisticated atmosphere''"
| "ENVIRONMENTS_prompt Env_urban_street =
     ''urban city street, modern buildings, bustling atmosphere''"
| "ENVIRONMENTS_prompt Env_urban_night =
     ''city street at night, neon signs, street lights, urban nightlife''"
| "ENVIRONMENTS_prompt Env_urban_rain =
     ''rainy urban street, wet asphalt reflections, rain streaks, moody atmosphere''"
| "ENVIRONMENTS_prompt Env_nature_forest =
     ''lush forest setting, trees, natural greenery, dappled sunlight''"
| "ENVIRONMENTS_prompt Env_nature_beach =
     ''beach setting, ocean waves, sandy shore, horizon line''"
| "ENVIRONMENTS_prompt Env_nature_mountain =
     ''mountain landscape, peaks, dramatic scenery, natural grandeur''"

fun MATERIALS_prompt :: "MaterialKey \<Rightarrow> string" where
  "MATERIALS_prompt Mat_skin_natural =
     ''natural skin texture, realistic pores, subtle imperfections''"
| "MATERIALS_prompt Mat_skin_dewy =
     ''dewy glowing skin, healthy shine, hydrated look''"
| "MATERIALS_prompt Mat_fabric_silk =
     ''silk fabric texture, smooth sheen, elegant draping''"
| "MATERIALS_prompt Mat_fabric_cotton =
     ''cotton fabric texture, soft matte, natural wrinkles''"
| "MATERIALS_prompt Mat_fabric_leather =
     ''leather texture, rich grain, subtle sheen''"
| "MATERIALS_prompt Mat_metal_chrome =
     ''chrome metal surface, mirror reflections, polished shine''"
| "MATERIALS_prompt Mat_metal_matte =
     ''matte metal texture, brushed surface, subtle reflections''"
| "MATERIALS_prompt Mat_glass_clear =
     ''clear glass, refractions, transparent surface''"
| "MATERIALS_prompt Mat_water_droplets =
     ''water droplets on surface, condensation, wet texture''"
| "MATERIALS_prompt Mat_texture_rough =
     ''rough textured surface, visible grain, tactile quality''"

fun STYLES_prompt :: "StyleKey \<Rightarrow> string" where
  "STYLES_prompt Style_photoreal_cinematic =
     ''ultra photoreal, cinematic color grading, movie still quality, professional cinematography''"
| "STYLES_prompt Style_photoreal_editorial =
     ''high-fashion editorial photography, magazine quality, sophisticated styling''"
| "STYLES_prompt Style_photoreal_documentary =
     ''raw documentary style, candid moment, authentic and unposed''"
| "STYLES_prompt Style_photoreal_portrait =
     ''professional portrait photography, flattering lighting, beautiful skin tones''"
| "STYLES_prompt Style_film_kodak =
     ''shot on Kodak Portra 400 film, natural film grain, warm color tones''"
| "STYLES_prompt Style_film_noir =
     ''film noir style, high contrast black and white, dramatic shadows''"
| "STYLES_prompt Style_clean_minimal =
     ''clean minimalist aesthetic, simple composition, uncluttered''"
| "STYLES_prompt Style_moody_dramatic =
     ''moody dramatic atmosphere, emotional intensity, cinematic tension''"

fun QUALITY_KEYWORDS_prompt :: "QualityKey \<Rightarrow> string" where
  "QUALITY_KEYWORDS_prompt Q_high_detail =
     ''highly detailed, intricate details''"
| "QUALITY_KEYWORDS_prompt Q_8k =
     ''8K resolution, ultra high definition''"
| "QUALITY_KEYWORDS_prompt Q_sharp =
     ''tack sharp focus, crisp details''"
| "QUALITY_KEYWORDS_prompt Q_clean_edges =
     ''clean edges, no artifacts''"
| "QUALITY_KEYWORDS_prompt Q_print_ready =
     ''print-ready quality, professional grade''"

fun FRAMINGS_prompt :: "FramingKey \<Rightarrow> string" where
  "FRAMINGS_prompt Frame_rule_of_thirds_left =
     ''subject positioned on left third, rule of thirds composition''"
| "FRAMINGS_prompt Frame_rule_of_thirds_right =
     ''subject positioned on right third, rule of thirds composition''"
| "FRAMINGS_prompt Frame_center =
     ''subject centered in frame, symmetrical composition''"
| "FRAMINGS_prompt Frame_negative_space_top =
     ''large negative space at top of frame, subject in lower portion''"
| "FRAMINGS_prompt Frame_negative_space_side =
     ''negative space on one side, subject offset''"
| "FRAMINGS_prompt Frame_foreground_frame =
     ''foreground elements framing the subject, depth layers''"

text \<open>\<^verbatim>\<open>IMAGE_NEGATIVE_PROMPTS\<close>: three fixed lists and the optional extras.\<close>

definition IMAGE_NEGATIVE_PROMPTS_default :: "string list" where
  "IMAGE_NEGATIVE_PROMPTS_default =
     [''blurry'', ''low resolution'', ''lowres'', ''jpeg artifacts'',
      ''compression artifacts'', ''watermark'', ''text'', ''logo'', ''signature'']"

definition IMAGE_NEGATIVE_PROMPTS_human :: "string list" where
  "IMAGE_NEGATIVE_PROMPTS_human =
     [''deformed face'', ''distorted face'', ''extra fingers'', ''extra limbs'',
      ''mutated hands'', ''bad anatomy'', ''weird eyes'', ''crossed eyes'',
      ''plastic skin'', ''uncanny valley'']"

definition IMAGE_NEGATIVE_PROMPTS_style :: "string list" where
  "IMAGE_NEGATIVE_PROMPTS_style =
     [''cartoon'', ''anime'', ''illustration'', ''painting'', ''drawing'',
      ''3d render'', ''cgi'']"

datatype OptionalNegativeKey =
    Neg_no_oversaturated
  | Neg_no_hdr
  | Neg_no_vignette
  | Neg_no_grain

fun IMAGE_NEGATIVE_PROMPTS_optional_prompt :: "OptionalNegativeKey \<Rightarrow> string" where
  "IMAGE_NEGATIVE_PROMPTS_optional_prompt Neg_no_oversaturated =
     ''oversaturated, overly vibrant colors''"
| "IMAGE_NEGATIVE_PROMPTS_optional_prompt Neg_no_hdr =
     ''HDR, overprocessed, over-sharpened''"
| "IMAGE_NEGATIVE_PROMPTS_optional_prompt Neg_no_vignette =
     ''heavy vignette, dark corners''"
| "IMAGE_NEGATIVE_PROMPTS_optional_prompt Neg_no_grain =
     ''excessive grain, noisy''"

section \<open>The image prompt builder (utils/imagePromptBuilder.ts)\<close>

record ImagePromptConfig =
  subject :: string
  isHuman :: bool
  shotType :: ShotTypeKey
  cameraAngle :: CameraAngleKey
  framing :: FramingKey
  lens :: LensKey
  environment :: EnvironmentKey
  customEnvironment :: "string option"
  lighting :: LightingKey
  materials :: "MaterialKey list"
  style :: StyleKey
  quality :: "QualityKey list"
  negativeOptional :: "OptionalNegativeKey list"
  additionalDetails :: "string option"

record ImageBreakdown =
  bd_subject :: string
  bd_setting :: string
  bd_composition :: string
  bd_camera :: string
  bd_lighting :: string
  bd_material :: string
  bd_style :: string
  bd_quality :: string

record GeneratedImagePrompt =
  fullPrompt :: string
  negativePrompt :: string
  breakdown :: ImageBreakdown

text \<open>
  \<open>buildImagePrompt\<close>, block by block as in the source. The conditional on
  \<^verbatim>\<open>config.customEnvironment\<close> is a truthiness test, the two
  \<^verbatim>\<open>.filter(Boolean)\<close> on the preset prompts and the one on the
  nine parts are kept, and so is the test on the number of material prompts.
\<close>

definition buildImagePrompt :: "ImagePromptConfig \<Rightarrow> GeneratedImagePrompt" where
  "buildImagePrompt config =
     (let subject' = subject config;
          envPreset =
            (if truthy (customEnvironment config)
             then (case customEnvironment config of Some s \<Rightarrow> s | None \<Rightarrow> [])
             else ENVIRONMENTS_prompt (environment config));
          compositionString =
            SHOT_TYPES_prompt (shotType config) @ '', '' @
            CAMERA_ANGLES_prompt (cameraAngle config) @ '', '' @
            FRAMINGS_prompt (framing config);
          cameraString = LENSES_prompt (lens config);
          lightingString = LIGHTINGS_prompt (lighting config);
          materialPrompts = filter_Boolean (map MATERIALS_prompt (materials config));
          materialString =
            (if length materialPrompts > 0 then join '', '' materialPrompts else []);
          styleString = STYLES_prompt (style config);
          qualityPrompts = filter_Boolean (map QUALITY_KEYWORDS_prompt (quality config));
          qualityString = join '', '' qualityPrompts;
          promptParts =
            filter_Boolean_opt
              [Some subject', Some envPreset, Some compositionString, Some cameraString,
               Some lightingString, Some materialString, Some styleString,
               Some qualityString, additionalDetails config];
          fullPrompt' = join ''. '' promptParts @ ''.'';
          negativePrompts =
            IMAGE_NEGATIVE_PROMPTS_default @
            (if isHuman config then IMAGE_NEGATIVE_PROMPTS_human else []) @
            IMAGE_NEGATIVE_PROMPTS_style @
            map IMAGE_NEGATIVE_PROMPTS_optional_prompt (negativeOptional config);
          negativePrompt' = join '', '' negativePrompts
      in \<lparr> fullPrompt = fullPrompt',
           negativePrompt = negativePrompt',
           breakdown =
             \<lparr> bd_subject = subject',
               bd_setting = envPreset,
               bd_composition = compositionString,
               bd_camera = cameraString,
               bd_lighting = lightingString,
               bd_material = materialString,
               bd_style = styleString,
               bd_quality = qualityString \<rparr> \<rparr>)"

text \<open>
  The nine blocks as the specification lists them, to be compared with what
  \<open>buildImagePrompt\<close> computes: subject, environment, composition, lens, lighting,
  materials, style, quality, additional details. A custom environment is
  \<^emph>\<open>present\<close> in JavaScript's sense: defined and not the empty string. An absent
  material selection, quality selection or detail text gives an empty block.
\<close>

definition nine_blocks_spec :: "ImagePromptConfig \<Rightarrow> string list" where
  "nine_blocks_spec config =
     [subject config,
      (case customEnvironment config of
         None \<Rightarrow> ENVIRONMENTS_prompt (environment config)
       | Some s \<Rightarrow> if s = [] then ENVIRONMENTS_prompt (environment config) else s),
      join '', '' [SHOT_TYPES_prompt (shotType config),
                   CAMERA_ANGLES_prompt (cameraAngle config),
                   FRAMINGS_prompt (framing config)],
      LENSES_prompt (lens config),
      LIGHTINGS_prompt (lighting config),
      join '', '' (map MATERIALS_prompt (materials config)),
      STYLES_prompt (style config),
      join '', '' (map QUALITY_KEYWORDS_prompt (quality config)),
      (case additionalDetails config of None \<Rightarrow> [] | Some s \<Rightarrow> s)]"

text \<open>Two concrete configurations used to run the builder.\<close>

definition fox_config :: ImagePromptConfig where
  "fox_config =
     \<lparr> subject = ''a red fox'', isHuman = False,
       shotType = Shot_wide, cameraAngle = Angle_birds_eye, framing = Frame_center,
       lens = Lens_24mm_wide, environment = Env_nature_forest,
       customEnvironment = Some [], lighting = Light_natural_golden,
       materials = [], style = Style_film_kodak, quality = [Q_8k, Q_sharp],
       negativeOptional = [Neg_no_hdr], additionalDetails = Some ''autumn leaves'' \<rparr>"

definition portrait_config :: ImagePromptConfig where
  "portrait_config =
     \<lparr> subject = ''a violinist'', isHuman = True,
       shotType = Shot_close_up, cameraAngle = Angle_eye_level,
       framing = Frame_rule_of_thirds_left,
       lens = Lens_85mm_portrait, environment = Env_studio_dark,
       customEnvironment = Some ''a concert hall'', lighting = Light_low_key,
       materials = [Mat_skin_natural, Mat_fabric_silk], style = Style_film_noir,
       quality = [], negativeOptional = [Neg_no_grain, Neg_no_vignette],
       additionalDetails = None \<rparr>"

section \<open>Video prompt presets (constants/videoPromptPresets.ts)\<close>

text \<open>
  The video presets declare key types and tables under the same names as the image
  presets; the video ones carry the suffix \<open>_video\<close> here.
\<close>

datatype CameraAngleKey_video =
    VAngle_extreme_close_up
  | VAngle_close_up
  | VAngle_medium
  | VAngle_wide
  | VAngle_low_angle
  | VAngle_high_angle
  | VAngle_dutch
  | VAngle_pov

datatype CameraMovementKey =
    Move_static
  | Move_slow_push
  | Move_slow_pull
  | Move_tracking
  | Move_orbit
  | Move_handheld
  | Move_crane_up
  | Move_dolly_zoom
  | Move_fpv_drone

datatype EnvironmentKey_video =
    VEnv_neon_bar
  | VEnv_cozy_cafe
  | VEnv_luxury_hotel
  | VEnv_studio_dark
  | VEnv_studio_bright
  | VEnv_rainy_city
  | VEnv_rooftop_night
  | VEnv_busy_street
  | VEnv_golden_hour
  | VEnv_blue_hour
  | VEnv_beach_sunset
  | VEnv_forest_misty
  | VEnv_snowy_night

datatype StyleKey_video =
    VStyle_cinematic
  | VStyle_film_grain
  | VStyle_anamorphic
  | VStyle_high_contrast
  | VStyle_soft_dreamy
  | VStyle_noir
  | VStyle_vibrant
  | VStyle_desaturated

datatype QualityKey_video =
    VQ_hyper_realistic
  | VQ_8k
  | VQ_detailed
  | VQ_unreal_engine
  | VQ_ray_tracing

fun CAMERA_ANGLES_video_prompt :: "CameraAngleKey_video \<Rightarrow> string" where
  "CAMERA_ANGLES_video_prompt VAngle_extreme_close_up =
     ''Extreme close-up shot''"
| "CAMERA_ANGLES_video_prompt VAngle_close_up =
     ''Close-up shot''"
| "CAMERA_ANGLES_video_prompt VAngle_medium =
     ''Medium shot''"
| "CAMERA_ANGLES_video_prompt VAngle_wide =
     ''Wide establishing shot''"
| "CAMERA_ANGLES_video_prompt VAngle_low_angle =
     ''Low-angle shot looking up''"
| "CAMERA_ANGLES_video_prompt VAngle_high_angle =
     ''High-angle shot looking down''"
| "CAMERA_ANGLES_video_prompt VAngle_dutch =
     ''Dutch angle tilted frame''"
| "CAMERA_ANGLES_video_prompt VAngle_pov =
     ''First-person POV shot''"

fun CAMERA_MOVEMENTS_prompt :: "CameraMovementKey \<Rightarrow> string" where
  "CAMERA_MOVEMENTS_prompt Move_static =
     ''static camera''"
| "CAMERA_MOVEMENTS_prompt Move_slow_push =
     ''slow subtle push-in''"
| "CAMERA_MOVEMENTS_prompt Move_slow_pull =
     ''slow pull-out revealing surroundings''"
| "CAMERA_MOVEMENTS_prompt Move_tracking =
     ''smooth tracking shot following subject''"
| "CAMERA_MOVEMENTS_prompt Move_orbit =
     ''orbiting around subject''"
| "CAMERA_MOVEMENTS_prompt Move_handheld =
     ''subtle handheld camera movement''"
| "CAMERA_MOVEMENTS_prompt Move_crane_up =
     ''crane shot rising upward''"
| "CAMERA_MOVEMENTS_prompt Move_dolly_zoom =
     ''dolly zoom vertigo effect''"
| "CAMERA_MOVEMENTS_prompt Move_fpv_drone =
     ''fast FPV drone shot''"

fun ENVIRONMENTS_video_prompt :: "EnvironmentKey_video \<Rightarrow> string" where
  "ENVIRONMENTS_video_prompt VEnv_neon_bar =
     ''neon-lit bar at night, red and purple rim lighting, bokeh background, reflections on glass surfaces, moody atmosphere''"
| "ENVIRONMENTS_video_prompt VEnv_cozy_cafe =
     ''warm cozy cafe interior, soft natural window light, wooden textures, steam rising from drinks, intimate atmosphere''"
| "ENVIRONMENTS_video_prompt VEnv_luxury_hotel =
     ''luxurious hotel room, soft diffused lighting, elegant decor, city lights through window, sophisticated atmosphere''"
| "ENVIRONMENTS_video_prompt VEnv_studio_dark =
     ''dark studio with single spotlight, dramatic shadows, black background, high contrast lighting''"
| "ENVIRONMENTS_video_prompt VEnv_studio_bright =
     ''bright white studio, soft even lighting, clean minimal background, professional photography setup''"
| "ENVIRONMENTS_video_prompt VEnv_rainy_city =
     ''rainy urban street at night, wet asphalt reflections, neon signs, puddles, cinematic noir atmosphere, volumetric light through rain''"
| "ENVIRONMENTS_video_prompt VEnv_rooftop_night =
     ''city rooftop at night, skyline in background, city lights bokeh, cool night breeze, urban solitude''"
| "ENVIRONMENTS_video_prompt VEnv_busy_street =
     ''busy city street, crowd in motion blur, urban energy, daytime natural lighting, dynamic atmosphere''"
| "ENVIRONMENTS_video_prompt VEnv_golden_hour =
     ''golden hour sunset, warm orange rim light, long shadows, magical soft glow, romantic atmosphere''"
| "ENVIRONMENTS_video_prompt VEnv_blue_hour =
     ''blue hour twilight, cool blue ambient light, city lights emerging, mysterious calm atmosphere''"
| "ENVIRONMENTS_video_prompt VEnv_beach_sunset =
     ''beach at sunset, waves crashing, orange sky reflection on water, wind in hair, freedom atmosphere''"
| "ENVIRONMENTS_video_prompt VEnv_forest_misty =
     ''misty forest, volumetric light rays through trees, fog, ethereal mysterious atmosphere''"
| "ENVIRONMENTS_video_prompt VEnv_snowy_night =
     ''snowy night, falling snowflakes, warm street lamp light, cold breath visible, peaceful winter atmosphere''"

fun STYLES_video_prompt :: "StyleKey_video \<Rightarrow> string" where
  "STYLES_video_prompt VStyle_cinematic =
     ''cinematic, movie-like composition, professional color grading''"
| "STYLES_video_prompt VStyle_film_grain =
     ''35mm film grain, analog film texture''"
| "STYLES_video_prompt VStyle_anamorphic =
     ''anamorphic lens, horizontal lens flare, wide aspect feel''"
| "STYLES_video_prompt VStyle_high_contrast =
     ''high contrast, deep shadows, bright highlights''"
| "STYLES_video_prompt VStyle_soft_dreamy =
     ''soft dreamy glow, slight haze, romantic feel''"
| "STYLES_video_prompt VStyle_noir =
     ''film noir style, dramatic shadows, moody atmosphere''"
| "STYLES_video_prompt VStyle_vibrant =
     ''vibrant saturated colors, punchy look''"
| "STYLES_video_prompt VStyle_desaturated =
     ''desaturated muted colors, subtle tones''"

fun QUALITY_KEYWORDS_video_prompt :: "QualityKey_video \<Rightarrow> string" where
  "QUALITY_KEYWORDS_video_prompt VQ_hyper_realistic =
     ''hyper-realistic, photorealistic''"
| "QUALITY_KEYWORDS_video_prompt VQ_8k =
     ''8K resolution, ultra high definition''"
| "QUALITY_KEYWORDS_video_prompt VQ_detailed =
     ''intricate details, sharp focus''"
| "QUALITY_KEYWORDS_video_prompt VQ_unreal_engine =
     ''Unreal Engine 5 render quality''"
| "QUALITY_KEYWORDS_video_prompt VQ_ray_tracing =
     ''ray traced lighting, realistic reflections''"

text \<open>\<^verbatim>\<open>NEGATIVE_PROMPTS\<close> of the video presets.\<close>

definition NEGATIVE_PROMPTS_default :: "string list" where
  "NEGATIVE_PROMPTS_default =
     [''blurry'', ''low quality'', ''distorted face'', ''deformed hands'', ''text'',
      ''watermark'', ''logo'', ''static image'', ''frame jump'', ''teleportation'']"

datatype OptionalNegativeKey_video =
    VNeg_no_cartoon
  | VNeg_no_slow_motion
  | VNeg_no_shake
  | VNeg_no_lens_effects
  | VNeg_no_cg_look

fun NEGATIVE_PROMPTS_optional_prompt :: "OptionalNegativeKey_video \<Rightarrow> string" where
  "NEGATIVE_PROMPTS_optional_prompt VNeg_no_cartoon =
     ''cartoon style, anime style, illustration''"
| "NEGATIVE_PROMPTS_optional_prompt VNeg_no_slow_motion =
     ''slow motion, speed ramp''"
| "NEGATIVE_PROMPTS_optional_prompt VNeg_no_shake =
     ''excessive camera shake, shaky cam''"
| "NEGATIVE_PROMPTS_optional_prompt VNeg_no_lens_effects =
     ''lens flare, chromatic aberration''"
| "NEGATIVE_PROMPTS_optional_prompt VNeg_no_cg_look =
     ''plastic skin, CGI look, uncanny valley''"

section \<open>The video prompt builder (utils/videoPromptBuilder.ts)\<close>

text \<open>
  The type \<^verbatim>\<open>Character\<close> is declared outside the files at hand. The
  builder reads four of its fields, each tested for truthiness and then inserted into
  a template string; they are optional strings here.
  The first argument of the builders is
  \<^verbatim>\<open>String.prototype.toLowerCase\<close>.
\<close>

record Character =
  name :: "string option"
  age :: "string option"
  personality :: "string option"
  outfit :: "string option"

record VideoPromptConfig =
  v_character :: "Character option"
  v_customSubject :: "string option"
  v_action :: string
  v_cameraAngle :: CameraAngleKey_video
  v_cameraMovement :: CameraMovementKey
  v_environment :: EnvironmentKey_video
  v_customEnvironment :: "string option"
  v_styles :: "StyleKey_video list"
  v_quality :: "QualityKey_video list"
  v_negativeOptional :: "OptionalNegativeKey_video list"

record VideoBreakdown =
  vb_subject :: string
  vb_action :: string
  vb_camera :: string
  vb_environment :: string
  vb_style :: string
  vb_quality :: string

record GeneratedPrompt =
  v_fullPrompt :: string
  v_negativePrompt :: string
  v_breakdown :: VideoBreakdown

definition buildSubjectFromCharacter :: "(string \<Rightarrow> string) \<Rightarrow> Character \<Rightarrow> string" where
  "buildSubjectFromCharacter toLowerCase character =
     (let parts0 = [];
          parts1 = (if truthy (age character)
                    then parts0 @ [str_of (age character) @ '' year old''] else parts0);
          parts2 = (if truthy (personality character)
                    then parts1 @ [toLowerCase (str_of (personality character))] else parts1);
          parts3 = parts2 @ [''Korean''];
          parts4 = (if truthy (outfit character)
                    then parts3 @ [''wearing '' @ toLowerCase (str_of (outfit character))]
                    else parts3);
          namePrefix = (if truthy (name character)
                        then str_of (name character) @ '', '' else [])
      in namePrefix @ ''a '' @ join '' '' parts4)"

definition buildVideoPrompt ::
  "(string \<Rightarrow> string) \<Rightarrow> VideoPromptConfig \<Rightarrow> GeneratedPrompt" where
  "buildVideoPrompt toLowerCase config =
     (let subject' =
            (case v_character config of
               Some ch \<Rightarrow> buildSubjectFromCharacter toLowerCase ch
             | None \<Rightarrow> str_of (js_or (v_customSubject config) (Some ''A person'')));
          action' = trim (v_action config);
          cameraString =
            CAMERA_ANGLES_video_prompt (v_cameraAngle config) @ '', '' @
            CAMERA_MOVEMENTS_prompt (v_cameraMovement config);
          environment' =
            str_of (js_or (v_customEnvironment config)
                          (Some (ENVIRONMENTS_video_prompt (v_environment config))));
          stylePrompts = filter_Boolean (map STYLES_video_prompt (v_styles config));
          styleString = join '', '' stylePrompts;
          qualityPrompts =
            filter_Boolean (map QUALITY_KEYWORDS_video_prompt (v_quality config));
          qualityString = join '', '' qualityPrompts;
          fullPrompt' =
            join ''. ''
              (filter_Boolean
                 [subject' @ '' '' @ action', cameraString, environment',
                  styleString, qualityString]) @ ''.'';
          negativePrompts =
            NEGATIVE_PROMPTS_default @
            map NEGATIVE_PROMPTS_optional_prompt (v_negativeOptional config);
          negativePrompt' = join '', '' negativePrompts
      in \<lparr> v_fullPrompt = fullPrompt',
           v_negativePrompt = negativePrompt',
           v_breakdown =
             \<lparr> vb_subject = subject',
               vb_action = action',
               vb_camera = cameraString,
               vb_environment = environment',
               vb_style = styleString,
               vb_quality = qualityString \<rparr> \<rparr>)"

text \<open>
  The five blocks as the specification lists them: the subject and the trimmed action
  (the template puts one space between the two), the camera block, the environment,
  the styles, the quality keywords.
\<close>

definition video_subject_spec :: "(string \<Rightarrow> string) \<Rightarrow> VideoPromptConfig \<Rightarrow> string" where
  "video_subject_spec toLowerCase config =
     (case v_character config of
        Some ch \<Rightarrow> buildSubjectFromCharacter toLowerCase ch
      | None \<Rightarrow>
          (case v_customSubject config of
             None \<Rightarrow> ''A person''
           | Some s \<Rightarrow> if s = [] then ''A person'' else s))"

definition video_blocks_spec ::
  "(string \<Rightarrow> string) \<Rightarrow> VideoPromptConfig \<Rightarrow> string list" where
  "video_blocks_spec toLowerCase config =
     [video_subject_spec toLowerCase config @ '' '' @ trim (v_action config),
      join '', '' [CAMERA_ANGLES_video_prompt (v_cameraAngle config),
                   CAMERA_MOVEMENTS_prompt (v_cameraMovement config)],
      (case v_customEnvironment config of
         None \<Rightarrow> ENVIRONMENTS_video_prompt (v_environment config)
       | Some s \<Rightarrow> if s = [] then ENVIRONMENTS_video_prompt (v_environment config) else s),
      join '', '' (map STYLES_video_prompt (v_styles config)),
      join '', '' (map QUALITY_KEYWORDS_video_prompt (v_quality config))]"

text \<open>
  Two configurations used to run the builder. The action of the first is wrapped in the
  ideographic space U+3000, spaces and the no-break space U+00A0.
\<close>

definition mina :: Character where
  "mina = \<lparr> name = Some ''Mina'', age = Some ''29'', personality = Some ''Calm'',
            outfit = Some ''A Trench Coat'' \<rparr>"

definition mina_config :: VideoPromptConfig where
  "mina_config =
     \<lparr> v_character = Some mina, v_customSubject = Some ''ignored'',
       v_action = [CHR 0xE3, CHR 0x80, CHR 0x80] @ '' turns toward the window '' @
                  [CHR 0xC2, CHR 0xA0],
       v_cameraAngle = VAngle_close_up, v_cameraMovement = Move_slow_push,
       v_environment = VEnv_cozy_cafe, v_customEnvironment = None,
       v_styles = [VStyle_cinematic, VStyle_noir], v_quality = [],
       v_negativeOptional = [VNeg_no_shake] \<rparr>"

definition nobody_config :: VideoPromptConfig where
  "nobody_config =
     \<lparr> v_character = None, v_customSubject = Some [],
       v_action = ''waves'',
       v_cameraAngle = VAngle_wide, v_cameraMovement = Move_static,
       v_environment = VEnv_blue_hour, v_customEnvironment = Some ''a pier'',
       v_styles = [], v_quality = [VQ_8k],
       v_negativeOptional = [] \<rparr>"

section \<open>The video generation endpoint (api/generate-video.ts)\<close>

subsection \<open>Values, requests and responses\<close>

text \<open>
  A thrown value is an \<^verbatim>\<open>Error\<close> with its message, or any other value
  with the string that \<^verbatim>\<open>String(e)\<close> gives for it.
\<close>

datatype js_thrown = JsError string | JsOther string

definition thrown_message :: "js_thrown \<Rightarrow> string" where
  \<comment> \<open>\<^verbatim>\<open>e instanceof Error ? e.message : String(e)\<close>\<close>
  "thrown_message e = (case e of JsError m \<Rightarrow> m | JsOther s \<Rightarrow> s)"

record SourceImage =
  img_data :: string
  img_mimeType :: string

text \<open>
  The request body. \<open>durationSeconds\<close> is a JSON number, hence a rational;
  \<open>None\<close> is a missing field.
\<close>

record GenerateVideoRequest =
  sourceImage :: "SourceImage option"
  motionPrompt :: "string option"
  durationSeconds :: "rat option"

text \<open>
  \<^verbatim>\<open>requireAuth\<close>, \<^verbatim>\<open>sanitizePrompt\<close> and the user store live
  outside the files at hand: the handler reads the result of the first, the second is
  a parameter of the model, and the lookup in the third is one of the answers of the
  outside.
  \<^verbatim>\<open>user?.settings?.hailuoApiKey\<close> is \<open>None\<close> when the settings or the
  key are missing.
\<close>

record AuthResult =
  authenticated :: bool
  userId :: "string option"
  auth_error :: "string option"

record User =
  isAdmin :: bool
  hailuoApiKey :: "string option"
  openaiApiKey :: "string option"

record VercelRequest =
  req_method :: string
  req_auth :: AuthResult
  req_body :: GenerateVideoRequest

datatype body =
    EmptyBody
  | ErrorBody string "string option"
  | AuthErrorBody string
  | VideoResult string string rat

record response =
  res_status :: nat
  res_body :: body

text \<open>
  What the outside answers. The upload either throws or gives the URL of the image.
  The request that creates the prediction throws (network failure, a body that is not
  JSON) or gives a JSON object, of which the handler reads four fields and, for an
  error text, its \<^verbatim>\<open>JSON.stringify\<close>. A poll throws or gives a JSON object;
  \<open>late\<close> is the time in milliseconds that one iteration of the polling loop
  takes beyond the timer of \<open>pollInterval\<close>: a late timer and the duration of
  the request. So the model takes every wait and every request to complete, the timer
  not to fire early and the clock not to run backwards.
\<close>

record CreateResult =
  cr_status :: "string option"
  cr_predictionID :: "string option"
  cr_error :: "string option"
  cr_message :: "string option"
  cr_json :: string

datatype create_outcome = CreateThrows js_thrown | CreateJson CreateResult

record PollResult =
  pr_status :: "string option"
  pr_output :: "string option"
  pr_error :: "string option"
  pr_message :: "string option"

datatype poll_outcome = PollThrows js_thrown | PollJson PollResult

record poll_step =
  late :: nat
  outcome :: poll_outcome

record World =
  HAILUO_API_KEY :: "string option"
  findUserById :: "string \<Rightarrow> js_thrown + User option"
  sanitizePrompt :: "string \<Rightarrow> nat \<Rightarrow> string"
  uploadImageToTempUrl :: "string \<Rightarrow> string \<Rightarrow> js_thrown + string"
  createPrediction :: "string \<Rightarrow> string \<Rightarrow> string \<Rightarrow> string \<Rightarrow> create_outcome"
  pollPrediction :: "string \<Rightarrow> string \<Rightarrow> nat \<Rightarrow> poll_step"

text \<open>
  The calls that leave the handler, in the order they are made: the user lookup, the
  building of the enhanced prompt, the upload of the image (data, MIME type), the
  request that creates the prediction (API key, prompt, image URL, duration), the wait
  before a poll, the poll (API key, prediction id, number of the poll), and the chat
  completion request of the OpenAI path (API key, model).
\<close>

datatype event =
    DbFindUser string
  | BuildPrompt string
  | UploadImage string string
  | CreatePrediction string string string string
  | Wait nat
  | PollPrediction string string nat
  | OpenAIRequest string string

subsection \<open>Texts of the handler\<close>

definition msg_login_required :: string where
  \<comment> \<open>the default error text of the 401 response (in English: login is required)\<close>
  "msg_login_required =
     [CHR 0xEB, CHR 0xA1, CHR 0x9C, CHR 0xEA, CHR 0xB7, CHR 0xB8, CHR 0xEC, CHR 0x9D,
     CHR 0xB8, CHR 0xEC, CHR 0x9D, CHR 0xB4] @ '' '' @ [CHR 0xED, CHR 0x95, CHR 0x84,
     CHR 0xEC, CHR 0x9A, CHR 0x94, CHR 0xED, CHR 0x95, CHR 0xA9, CHR 0xEB, CHR 0x8B,
     CHR 0x88, CHR 0xEB, CHR 0x8B, CHR 0xA4] @ ''.''"

definition msg_key_missing :: string where
  \<comment> \<open>the error text of the key-missing response (the Hailuo API key is not set)\<close>
  "msg_key_missing =
     ''Hailuo API '' @ [CHR 0xED, CHR 0x82, CHR 0xA4, CHR 0xEA, CHR 0xB0, CHR 0x80] @ '' ''
     @ [CHR 0xEC, CHR 0x84, CHR 0xA4, CHR 0xEC, CHR 0xA0, CHR 0x95, CHR 0xEB, CHR 0x90,
     CHR 0x98, CHR 0xEC, CHR 0xA7, CHR 0x80] @ '' '' @ [CHR 0xEC, CHR 0x95, CHR 0x8A,
     CHR 0xEC, CHR 0x95, CHR 0x98, CHR 0xEC, CHR 0x8A, CHR 0xB5, CHR 0xEB, CHR 0x8B,
     CHR 0x88, CHR 0xEB, CHR 0x8B, CHR 0xA4] @ ''. '' @ [CHR 0xEC, CHR 0x84, CHR 0xA4,
     CHR 0xEC, CHR 0xA0, CHR 0x95, CHR 0xEC, CHR 0x97, CHR 0x90, CHR 0xEC, CHR 0x84,
     CHR 0x9C] @ '' Hailuo API '' @ [CHR 0xED, CHR 0x82, CHR 0xA4, CHR 0xEB, CHR 0xA5,
     CHR 0xBC] @ '' '' @ [CHR 0xEC, CHR 0x9E, CHR 0x85, CHR 0xEB, CHR 0xA0, CHR 0xA5,
     CHR 0xED, CHR 0x95, CHR 0xB4] @ '' '' @ [CHR 0xEC, CHR 0xA3, CHR 0xBC, CHR 0xEC,
     CHR 0x84, CHR 0xB8, CHR 0xEC, CHR 0x9A, CHR 0x94] @ ''.''"

definition msg_upload_failed_prefix :: string where
  \<comment> \<open>prefix of the upload failure text (image upload failed)\<close>
  "msg_upload_failed_prefix =
     [CHR 0xEC, CHR 0x9D, CHR 0xB4, CHR 0xEB, CHR 0xAF, CHR 0xB8, CHR 0xEC, CHR 0xA7,
     CHR 0x80] @ '' '' @ [CHR 0xEC, CHR 0x97, CHR 0x85, CHR 0xEB, CHR 0xA1, CHR 0x9C,
     CHR 0xEB, CHR 0x93, CHR 0x9C] @ '' '' @ [CHR 0xEC, CHR 0x8B, CHR 0xA4, CHR 0xED,
     CHR 0x8C, CHR 0xA8] @ '': ''"

definition msg_key_invalid :: string where
  \<comment> \<open>the Hailuo API key is not valid\<close>
  "msg_key_invalid =
     ''Hailuo API '' @ [CHR 0xED, CHR 0x82, CHR 0xA4, CHR 0xEA, CHR 0xB0, CHR 0x80] @ '' ''
     @ [CHR 0xEC, CHR 0x9C, CHR 0xA0, CHR 0xED, CHR 0x9A, CHR 0xA8, CHR 0xED, CHR 0x95,
     CHR 0x98, CHR 0xEC, CHR 0xA7, CHR 0x80] @ '' '' @ [CHR 0xEC, CHR 0x95, CHR 0x8A,
     CHR 0xEC, CHR 0x8A, CHR 0xB5, CHR 0xEB, CHR 0x8B, CHR 0x88, CHR 0xEB, CHR 0x8B,
     CHR 0xA4] @ ''. '' @ [CHR 0xED, CHR 0x82, CHR 0xA4, CHR 0xEB, CHR 0xA5, CHR 0xBC]
     @ '' '' @ [CHR 0xED, CHR 0x99, CHR 0x95, CHR 0xEC, CHR 0x9D, CHR 0xB8, CHR 0xED,
     CHR 0x95, CHR 0x98, CHR 0xEC, CHR 0x84, CHR 0xB8, CHR 0xEC, CHR 0x9A, CHR 0x94] @ ''.''"

definition msg_call_failed_prefix :: string where
  \<comment> \<open>prefix: the Hailuo API call failed\<close>
  "msg_call_failed_prefix =
     ''Hailuo API '' @ [CHR 0xED, CHR 0x98, CHR 0xB8, CHR 0xEC, CHR 0xB6, CHR 0x9C] @ '' ''
     @ [CHR 0xEC, CHR 0x8B, CHR 0xA4, CHR 0xED, CHR 0x8C, CHR 0xA8] @ '': ''"

definition msg_timeout_head :: string where
  \<comment> \<open>head of the timeout text (video generation timed out), before the seconds\<close>
  "msg_timeout_head =
     [CHR 0xEB, CHR 0xB9, CHR 0x84, CHR 0xEB, CHR 0x94, CHR 0x94, CHR 0xEC, CHR 0x98,
     CHR 0xA4] @ '' '' @ [CHR 0xEC, CHR 0x83, CHR 0x9D, CHR 0xEC, CHR 0x84, CHR 0xB1]
     @ '' '' @ [CHR 0xEC, CHR 0x8B, CHR 0x9C, CHR 0xEA, CHR 0xB0, CHR 0x84] @ '' ''
     @ [CHR 0xEC, CHR 0xB4, CHR 0x88, CHR 0xEA, CHR 0xB3, CHR 0xBC] @ '' (''"

definition msg_timeout_tail :: string where
  \<comment> \<open>tail of the timeout text (seconds elapsed; try again later)\<close>
  "msg_timeout_tail =
     [CHR 0xEC, CHR 0xB4, CHR 0x88] @ '' '' @ [CHR 0xEA, CHR 0xB2, CHR 0xBD, CHR 0xEA,
     CHR 0xB3, CHR 0xBC] @ ''). '' @ [CHR 0xEB, CHR 0x82, CHR 0x98, CHR 0xEC, CHR 0xA4,
     CHR 0x91, CHR 0xEC, CHR 0x97, CHR 0x90] @ '' '' @ [CHR 0xEB, CHR 0x8B, CHR 0xA4,
     CHR 0xEC, CHR 0x8B, CHR 0x9C] @ '' '' @ [CHR 0xEC, CHR 0x8B, CHR 0x9C, CHR 0xEB,
     CHR 0x8F, CHR 0x84, CHR 0xED, CHR 0x95, CHR 0x98, CHR 0xEC, CHR 0x84, CHR 0xB8,
     CHR 0xEC, CHR 0x9A, CHR 0x94] @ ''.''"

definition msg_unknown_detail :: string where
  \<comment> \<open>the default error detail (unknown error)\<close>
  "msg_unknown_detail =
     [CHR 0xEC, CHR 0x95, CHR 0x8C] @ '' '' @ [CHR 0xEC, CHR 0x88, CHR 0x98] @ '' ''
     @ [CHR 0xEC, CHR 0x97, CHR 0x86, CHR 0xEB, CHR 0x8A, CHR 0x94] @ '' '' @ [CHR 0xEC,
     CHR 0x98, CHR 0xA4, CHR 0xEB, CHR 0xA5, CHR 0x98]"

definition msg_video_failed_prefix :: string where
  \<comment> \<open>prefix: video generation failed\<close>
  "msg_video_failed_prefix =
     [CHR 0xEB, CHR 0xB9, CHR 0x84, CHR 0xEB, CHR 0x94, CHR 0x94, CHR 0xEC, CHR 0x98,
     CHR 0xA4] @ '' '' @ [CHR 0xEC, CHR 0x83, CHR 0x9D, CHR 0xEC, CHR 0x84, CHR 0xB1]
     @ '' '' @ [CHR 0xEC, CHR 0x8B, CHR 0xA4, CHR 0xED, CHR 0x8C, CHR 0xA8] @ '': ''"

definition video_word :: string where
  \<comment> \<open>the Korean word for video, U+BE44 U+B514 U+C624, that the handler searches for in error messages\<close>
  "video_word =
     [CHR 0xEB, CHR 0xB9, CHR 0x84, CHR 0xEB, CHR 0x94, CHR 0x94, CHR 0xEC, CHR 0x98,
     CHR 0xA4]"

definition msg_repeated_failure :: string where
  \<comment> \<open>checking the video generation status failed repeatedly\<close>
  "msg_repeated_failure =
     [CHR 0xEB, CHR 0xB9, CHR 0x84, CHR 0xEB, CHR 0x94, CHR 0x94, CHR 0xEC, CHR 0x98,
     CHR 0xA4] @ '' '' @ [CHR 0xEC, CHR 0x83, CHR 0x9D, CHR 0xEC, CHR 0x84, CHR 0xB1]
     @ '' '' @ [CHR 0xEC, CHR 0x83, CHR 0x81, CHR 0xED, CHR 0x83, CHR 0x9C] @ '' ''
     @ [CHR 0xED, CHR 0x99, CHR 0x95, CHR 0xEC, CHR 0x9D, CHR 0xB8, CHR 0xEC, CHR 0x9D,
     CHR 0xB4] @ '' '' @ [CHR 0xEB, CHR 0xB0, CHR 0x98, CHR 0xEB, CHR 0xB3, CHR 0xB5]
     @ '' '' @ [CHR 0xEC, CHR 0x8B, CHR 0xA4, CHR 0xED, CHR 0x8C, CHR 0xA8, CHR 0xED,
     CHR 0x96, CHR 0x88, CHR 0xEC, CHR 0x8A, CHR 0xB5, CHR 0xEB, CHR 0x8B, CHR 0x88,
     CHR 0xEB, CHR 0x8B, CHR 0xA4] @ ''.''"

definition msg_permission :: string where
  \<comment> \<open>no permission to access the Hailuo API\<close>
  "msg_permission =
     ''Hailuo API '' @ [CHR 0xEC, CHR 0xA0, CHR 0x91, CHR 0xEA, CHR 0xB7, CHR 0xBC] @ '' ''
     @ [CHR 0xEA, CHR 0xB6, CHR 0x8C, CHR 0xED, CHR 0x95, CHR 0x9C, CHR 0xEC, CHR 0x9D,
     CHR 0xB4] @ '' '' @ [CHR 0xEC, CHR 0x97, CHR 0x86, CHR 0xEC, CHR 0x8A, CHR 0xB5,
     CHR 0xEB, CHR 0x8B, CHR 0x88, CHR 0xEB, CHR 0x8B, CHR 0xA4] @ ''. API '' @ [CHR 0xED,
     CHR 0x82, CHR 0xA4, CHR 0xEB, CHR 0xA5, CHR 0xBC] @ '' '' @ [CHR 0xED, CHR 0x99,
     CHR 0x95, CHR 0xEC, CHR 0x9D, CHR 0xB8, CHR 0xED, CHR 0x95, CHR 0x98, CHR 0xEC,
     CHR 0x84, CHR 0xB8, CHR 0xEC, CHR 0x9A, CHR 0x94] @ ''.''"

definition msg_quota :: string where
  \<comment> \<open>the API quota is exceeded\<close>
  "msg_quota =
     ''API '' @ [CHR 0xED, CHR 0x95, CHR 0xA0, CHR 0xEB, CHR 0x8B, CHR 0xB9, CHR 0xEB,
     CHR 0x9F, CHR 0x89, CHR 0xEC, CHR 0x9D, CHR 0x84] @ '' '' @ [CHR 0xEC, CHR 0xB4,
     CHR 0x88, CHR 0xEA, CHR 0xB3, CHR 0xBC, CHR 0xED, CHR 0x96, CHR 0x88, CHR 0xEC,
     CHR 0x8A, CHR 0xB5, CHR 0xEB, CHR 0x8B, CHR 0x88, CHR 0xEB, CHR 0x8B, CHR 0xA4]
     @ ''. '' @ [CHR 0xEC, CHR 0x9E, CHR 0xA0, CHR 0xEC, CHR 0x8B, CHR 0x9C] @ '' ''
     @ [CHR 0xED, CHR 0x9B, CHR 0x84] @ '' '' @ [CHR 0xEB, CHR 0x8B, CHR 0xA4, CHR 0xEC,
     CHR 0x8B, CHR 0x9C] @ '' '' @ [CHR 0xEC, CHR 0x8B, CHR 0x9C, CHR 0xEB, CHR 0x8F,
     CHR 0x84, CHR 0xED, CHR 0x95, CHR 0x98, CHR 0xEC, CHR 0x84, CHR 0xB8, CHR 0xEC,
     CHR 0x9A, CHR 0x94] @ ''.''"

definition msg_unknown :: string where
  \<comment> \<open>an unknown error occurred during video generation\<close>
  "msg_unknown =
     [CHR 0xEB, CHR 0xB9, CHR 0x84, CHR 0xEB, CHR 0x94, CHR 0x94, CHR 0xEC, CHR 0x98,
     CHR 0xA4] @ '' '' @ [CHR 0xEC, CHR 0x83, CHR 0x9D, CHR 0xEC, CHR 0x84, CHR 0xB1]
     @ '' '' @ [CHR 0xEC, CHR 0xA4, CHR 0x91] @ '' '' @ [CHR 0xEC, CHR 0x95, CHR 0x8C]
     @ '' '' @ [CHR 0xEC, CHR 0x88, CHR 0x98] @ '' '' @ [CHR 0xEC, CHR 0x97, CHR 0x86,
     CHR 0xEB, CHR 0x8A, CHR 0x94] @ '' '' @ [CHR 0xEC, CHR 0x98, CHR 0xA4, CHR 0xEB,
     CHR 0xA5, CHR 0x98, CHR 0xEA, CHR 0xB0, CHR 0x80] @ '' '' @ [CHR 0xEB, CHR 0xB0,
     CHR 0x9C, CHR 0xEC, CHR 0x83, CHR 0x9D, CHR 0xED, CHR 0x96, CHR 0x88, CHR 0xEC,
     CHR 0x8A, CHR 0xB5, CHR 0xEB, CHR 0x8B, CHR 0x88, CHR 0xEB, CHR 0x8B, CHR 0xA4] @ ''.''"

definition msg_user_not_found :: string where
  \<comment> \<open>the user cannot be found\<close>
  "msg_user_not_found =
     [CHR 0xEC, CHR 0x82, CHR 0xAC, CHR 0xEC, CHR 0x9A, CHR 0xA9, CHR 0xEC, CHR 0x9E,
     CHR 0x90, CHR 0xEB, CHR 0xA5, CHR 0xBC] @ '' '' @ [CHR 0xEC, CHR 0xB0, CHR 0xBE,
     CHR 0xEC, CHR 0x9D, CHR 0x84] @ '' '' @ [CHR 0xEC, CHR 0x88, CHR 0x98] @ '' ''
     @ [CHR 0xEC, CHR 0x97, CHR 0x86, CHR 0xEC, CHR 0x8A, CHR 0xB5, CHR 0xEB, CHR 0x8B,
     CHR 0x88, CHR 0xEB, CHR 0x8B, CHR 0xA4] @ ''.''"

definition msg_openai_key_missing_admin :: string where
  \<comment> \<open>the OpenAI API key is not set\<close>
  "msg_openai_key_missing_admin =
     ''OpenAI API '' @ [CHR 0xED, CHR 0x82, CHR 0xA4, CHR 0xEA, CHR 0xB0, CHR 0x80] @ '' ''
     @ [CHR 0xEC, CHR 0x84, CHR 0xA4, CHR 0xEC, CHR 0xA0, CHR 0x95, CHR 0xEB, CHR 0x90,
     CHR 0x98, CHR 0xEC, CHR 0xA7, CHR 0x80] @ '' '' @ [CHR 0xEC, CHR 0x95, CHR 0x8A,
     CHR 0xEC, CHR 0x95, CHR 0x98, CHR 0xEC, CHR 0x8A, CHR 0xB5, CHR 0xEB, CHR 0x8B,
     CHR 0x88, CHR 0xEB, CHR 0x8B, CHR 0xA4] @ ''.''"

definition msg_openai_key_missing :: string where
  \<comment> \<open>the OpenAI API key is not set; enter it in the settings\<close>
  "msg_openai_key_missing =
     ''OpenAI API '' @ [CHR 0xED, CHR 0x82, CHR 0xA4, CHR 0xEA, CHR 0xB0, CHR 0x80] @ '' ''
     @ [CHR 0xEC, CHR 0x84, CHR 0xA4, CHR 0xEC, CHR 0xA0, CHR 0x95, CHR 0xEB, CHR 0x90,
     CHR 0x98, CHR 0xEC, CHR 0xA7, CHR 0x80] @ '' '' @ [CHR 0xEC, CHR 0x95, CHR 0x8A,
     CHR 0xEC, CHR 0x95, CHR 0x98, CHR 0xEC, CHR 0x8A, CHR 0xB5, CHR 0xEB, CHR 0x8B,
     CHR 0x88, CHR 0xEB, CHR 0x8B, CHR 0xA4] @ ''. '' @ [CHR 0xEC, CHR 0x84, CHR 0xA4,
     CHR 0xEC, CHR 0xA0, CHR 0x95, CHR 0xEC, CHR 0x97, CHR 0x90, CHR 0xEC, CHR 0x84,
     CHR 0x9C] @ '' OpenAI API '' @ [CHR 0xED, CHR 0x82, CHR 0xA4, CHR 0xEB, CHR 0xA5,
     CHR 0xBC] @ '' '' @ [CHR 0xEC, CHR 0x9E, CHR 0x85, CHR 0xEB, CHR 0xA0, CHR 0xA5,
     CHR 0xED, CHR 0x95, CHR 0xB4] @ '' '' @ [CHR 0xEC, CHR 0xA3, CHR 0xBC, CHR 0xEC,
     CHR 0x84, CHR 0xB8, CHR 0xEC, CHR 0x9A, CHR 0x94] @ ''.''"

subsection \<open>The polling loop\<close>

definition maxPollingTime :: nat where
  "maxPollingTime = 300000"

definition pollInterval :: nat where
  "pollInterval = 5000"

text \<open>
  \<^verbatim>\<open>Math.round(ms / 1000)\<close> for a time that is not negative.
\<close>

definition round_seconds :: "nat \<Rightarrow> nat" where
  "round_seconds ms = (ms + 500) div 1000"

text \<open>
  The \<^verbatim>\<open>try\<close> block of one iteration: it returns the output of a poll that
  reports success with a truthy output, throws what the request threw, throws the
  video generation error for a poll that reports an error, and otherwise falls through.
\<close>

datatype try_result = TryReturn string | TryThrows js_thrown | TryDone

definition poll_try :: "poll_outcome \<Rightarrow> try_result" where
  "poll_try out =
     (case out of
        PollThrows e \<Rightarrow> TryThrows e
      | PollJson pollResult \<Rightarrow>
          if pr_status pollResult = Some ''success'' \<and> truthy (pr_output pollResult)
          then TryReturn (str_of (pr_output pollResult))
          else if pr_status pollResult = Some ''error''
          then TryThrows (JsError (msg_video_failed_prefix @
                 str_of (js_or (js_or (pr_error pollResult) (pr_message pollResult))
                               (Some msg_unknown_detail))))
          else TryDone)"

text \<open>
  The \<^verbatim>\<open>catch\<close> block of one iteration: an \<^verbatim>\<open>Error\<close> whose message
  contains the word for video is thrown again; any other failure raises the repeated
  failure error when the poll counter exceeds 3, and is swallowed otherwise
  (\<open>None\<close>).
\<close>

definition mentions_video :: "js_thrown \<Rightarrow> bool" where
  "mentions_video pollError =
     (case pollError of JsError m \<Rightarrow> includes_str m video_word | JsOther s \<Rightarrow> False)"

definition poll_catch :: "js_thrown \<Rightarrow> nat \<Rightarrow> js_thrown option" where
  "poll_catch pollError pollCount =
     (if mentions_video pollError then Some pollError
      else if pollCount > 3 then Some (JsError msg_repeated_failure)
      else None)"

text \<open>
  The loop \<^verbatim>\<open>while (true)\<close>. Its state is the poll counter and \<open>now\<close>, the
  milliseconds since \<^verbatim>\<open>startTime\<close> at the head of the iteration; the calls
  made so far are collected in \<open>tr\<close>. The loop ends by returning the video URL,
  together with the milliseconds since \<^verbatim>\<open>startTime\<close> that the success path
  reads for its log line, or by throwing.
\<close>

datatype loop_result = LoopReturn string nat | LoopThrow js_thrown

definition timeout_error :: "nat \<Rightarrow> js_thrown" where
  "timeout_error now =
     JsError (msg_timeout_head @ String_of_nat (round_seconds now) @ msg_timeout_tail)"

function poll_loop ::
  "(nat \<Rightarrow> poll_step) \<Rightarrow> string \<Rightarrow> string \<Rightarrow> nat \<Rightarrow> nat \<Rightarrow> event list
     \<Rightarrow> event list \<times> loop_result" where
  "poll_loop steps apiKey predictionId pollCount now tr =
     (if now > maxPollingTime then (tr, LoopThrow (timeout_error now))
      else
        (case poll_try (outcome (steps (pollCount + 1))) of
           TryReturn videoUrl \<Rightarrow>
             (tr @ [Wait pollInterval, PollPrediction apiKey predictionId (pollCount + 1)],
              LoopReturn videoUrl (now + pollInterval + late (steps (pollCount + 1))))
         | TryThrows pollError \<Rightarrow>
             (case poll_catch pollError (pollCount + 1) of
                Some e \<Rightarrow>
                  (tr @ [Wait pollInterval,
                         PollPrediction apiKey predictionId (pollCount + 1)],
                   LoopThrow e)
              | None \<Rightarrow>
                  poll_loop steps apiKey predictionId (pollCount + 1)
                    (now + pollInterval + late (steps (pollCount + 1)))
                    (tr @ [Wait pollInterval,
                           PollPrediction apiKey predictionId (pollCount + 1)]))
         | TryDone \<Rightarrow>
             poll_loop steps apiKey predictionId (pollCount + 1)
               (now + pollInterval + late (steps (pollCount + 1)))
               (tr @ [Wait pollInterval,
                      PollPrediction apiKey predictionId (pollCount + 1)])))"
  by pat_completeness auto
termination
  by (relation "measure (\<lambda>(steps, apiKey, predictionId, pollCount, now, tr).
                  maxPollingTime + 1 - now)")
     (auto simp: pollInterval_def)

text \<open>
  The equation of the loop is applied one iteration at a time, by hand.
\<close>

declare poll_loop.simps [simp del]

subsection \<open>The handler\<close>

text \<open>
  The key of the Hailuo API: the environment variable for an administrator, the key
  stored for the user, else the environment variable, for anyone else. A user that
  the lookup does not find is not an administrator and has no stored key.
\<close>

definition selectHailuoApiKey :: "User option \<Rightarrow> string option \<Rightarrow> string option" where
  "selectHailuoApiKey user envKey =
     (if (case user of None \<Rightarrow> False | Some u \<Rightarrow> isAdmin u) then envKey
      else js_or (case user of None \<Rightarrow> None | Some u \<Rightarrow> hailuoApiKey u) envKey)"

definition NL :: string where
  "NL = [CHR 0x0A]"

definition enhancedPrompt :: "string \<Rightarrow> string" where
  "enhancedPrompt sanitizedPrompt =
     trim (NL @
       ''Cinematic video generation from reference image:'' @ NL @
       sanitizedPrompt @ NL @
       NL @
       ''Motion & Camera Requirements:'' @ NL @
       ''- Smooth, natural camera movements'' @ NL @
       ''- Realistic motion physics'' @ NL @
       ''- Cinematic quality, film-like aesthetics'' @ NL @
       NL @
       ''Technical Requirements:'' @ NL @
       ''- High quality video output'' @ NL @
       ''- Consistent lighting throughout'' @ NL @
       ''- No sudden jumps or artifacts'' @ NL)"

text \<open>
  The duration sent to the video API, \<^verbatim>\<open>String(durationSeconds <= 6 ? 6 : 10)\<close>.
\<close>

definition hailuo_duration :: "rat \<Rightarrow> nat" where
  "hailuo_duration d = (if d \<le> 6 then 6 else 10)"

text \<open>
  Creating the prediction: the \<^verbatim>\<open>try\<close> block gives the prediction id or
  throws; the \<^verbatim>\<open>catch\<close> block answers 403 for a message with \<open>401\<close> or
  \<open>Unauthorized\<close> and throws the call failure error otherwise.
\<close>

definition create_try :: "create_outcome \<Rightarrow> js_thrown + string" where
  "create_try out =
     (case out of
        CreateThrows e \<Rightarrow> Inl e
      | CreateJson createResult \<Rightarrow>
          if cr_status createResult \<noteq> Some ''success''
             \<or> \<not> truthy (cr_predictionID createResult)
          then Inl (JsError (str_of (js_or (js_or (cr_error createResult)
                                                 (cr_message createResult))
                                         (Some (cr_json createResult)))))
          else Inr (str_of (cr_predictionID createResult)))"

definition create_catch :: "js_thrown \<Rightarrow> js_thrown + response" where
  "create_catch initError =
     (if includes_str (thrown_message initError) ''401''
         \<or> includes_str (thrown_message initError) ''Unauthorized''
      then Inr \<lparr> res_status = 403,
                 res_body = ErrorBody msg_key_invalid (Some ''PERMISSION_DENIED'') \<rparr>
      else Inl (JsError (msg_call_failed_prefix @ thrown_message initError)))"

text \<open>The \<^verbatim>\<open>catch\<close> block around the whole handler body.\<close>

definition outer_catch :: "js_thrown \<Rightarrow> response" where
  "outer_catch e =
     (case e of
        JsError msg \<Rightarrow>
          if includes_str msg ''PERMISSION_DENIED'' \<or> includes_str msg ''403''
             \<or> includes_str msg ''Forbidden'' \<or> includes_str msg ''Unauthorized''
          then \<lparr> res_status = 403,
                 res_body = ErrorBody msg_permission (Some ''PERMISSION_DENIED'') \<rparr>
          else if includes_str msg ''QUOTA_EXCEEDED'' \<or> includes_str msg ''429''
             \<or> includes_str msg ''Resource exhausted'' \<or> includes_str msg ''rate limit''
          then \<lparr> res_status = 429,
                 res_body = ErrorBody msg_quota (Some ''QUOTA_EXCEEDED'') \<rparr>
          else if includes_str msg video_word \<or> includes_str msg ''Hailuo''
          then \<lparr> res_status = 500,
                 res_body = ErrorBody msg (Some ''VIDEO_GENERATION_FAILED'') \<rparr>
          else \<lparr> res_status = 500,
                 res_body = ErrorBody (msg_video_failed_prefix @ msg)
                              (Some ''VIDEO_GENERATION_FAILED'') \<rparr>
      | JsOther s \<Rightarrow>
          \<lparr> res_status = 500, res_body = ErrorBody msg_unknown (Some ''UNKNOWN_ERROR'') \<rparr>)"

text \<open>
  The destructuring \<^verbatim>\<open>durationSeconds = 5\<close>: a missing field is 5.
\<close>

definition requested_duration :: "GenerateVideoRequest \<Rightarrow> rat" where
  "requested_duration reqBody =
     (case durationSeconds reqBody of None \<Rightarrow> 5 | Some d \<Rightarrow> d)"

text \<open>
  The body of the \<^verbatim>\<open>try\<close> block of the handler, for an authenticated user:
  the calls made, and the response returned or the value thrown.
\<close>

definition handler_polling ::
  "World \<Rightarrow> SourceImage \<Rightarrow> rat \<Rightarrow> string \<Rightarrow> string \<Rightarrow> event list
     \<Rightarrow> event list \<times> (js_thrown + response)" where
  "handler_polling w img duration apiKey predictionId tr =
     (case poll_loop (pollPrediction w apiKey predictionId) apiKey predictionId 0 0 tr of
        (tr', LoopReturn videoUrl totalTime) \<Rightarrow>
          (tr', Inr \<lparr> res_status = 200,
                      res_body = VideoResult videoUrl
                        (''data:'' @ img_mimeType img @ '';base64,'' @ img_data img)
                        duration \<rparr>)
      | (tr', LoopThrow e) \<Rightarrow> (tr', Inl e))"

definition handler_try ::
  "World \<Rightarrow> GenerateVideoRequest \<Rightarrow> string \<Rightarrow> event list \<times> (js_thrown + response)" where
  "handler_try w reqBody uid =
     (let duration = requested_duration reqBody in
      case sourceImage reqBody of
        None \<Rightarrow>
          ([], Inr \<lparr> res_status = 400,
                     res_body = ErrorBody ''sourceImage is required'' None \<rparr>)
      | Some img \<Rightarrow>
          if img_data img = []
          then ([], Inr \<lparr> res_status = 400,
                          res_body = ErrorBody ''sourceImage is required'' None \<rparr>)
          else if \<not> truthy (motionPrompt reqBody)
          then ([], Inr \<lparr> res_status = 400,
                          res_body = ErrorBody ''motionPrompt is required'' None \<rparr>)
          else
            (case findUserById w uid of
               Inl e \<Rightarrow> ([DbFindUser uid], Inl e)
             | Inr user \<Rightarrow>
                 if \<not> truthy (selectHailuoApiKey user (HAILUO_API_KEY w))
                 then ([DbFindUser uid],
                       Inr \<lparr> res_status = 400,
                             res_body = ErrorBody msg_key_missing
                                          (Some ''API_KEY_MISSING'') \<rparr>)
                 else
                   (let apiKey = str_of (selectHailuoApiKey user (HAILUO_API_KEY w));
                        prompt = enhancedPrompt
                                   (sanitizePrompt w (str_of (motionPrompt reqBody)) 1000);
                        tr1 = [DbFindUser uid, BuildPrompt prompt,
                               UploadImage (img_data img) (img_mimeType img)]
                    in case uploadImageToTempUrl w (img_data img) (img_mimeType img) of
                         Inl uploadError \<Rightarrow>
                           (tr1,
                            Inr \<lparr> res_status = 500,
                                  res_body = ErrorBody
                                    (msg_upload_failed_prefix @ thrown_message uploadError)
                                    (Some ''IMAGE_UPLOAD_FAILED'') \<rparr>)
                       | Inr imageUrl \<Rightarrow>
                           (let sent = String_of_nat (hailuo_duration duration);
                                tr2 = tr1 @ [CreatePrediction apiKey prompt imageUrl sent]
                            in case create_try
                                      (createPrediction w apiKey prompt imageUrl sent) of
                                 Inl initError \<Rightarrow>
                                   (case create_catch initError of
                                      Inr resp \<Rightarrow> (tr2, Inr resp)
                                    | Inl e \<Rightarrow> (tr2, Inl e))
                               | Inr predictionId \<Rightarrow>
                                   handler_polling w img duration apiKey predictionId
                                     tr2))))"

definition handler :: "World \<Rightarrow> VercelRequest \<Rightarrow> event list \<times> response" where
  "handler w req =
     (if req_method req = ''OPTIONS''
      then ([], \<lparr> res_status = 200, res_body = EmptyBody \<rparr>)
      else if req_method req \<noteq> ''POST''
      then ([], \<lparr> res_status = 405, res_body = ErrorBody ''Method not allowed'' None \<rparr>)
      else if \<not> authenticated (req_auth req) \<or> \<not> truthy (userId (req_auth req))
      then ([], \<lparr> res_status = 401,
                  res_body = AuthErrorBody
                    (str_of (js_or (auth_error (req_auth req))
                                   (Some msg_login_required))) \<rparr>)
      else
        (case handler_try w (req_body req) (str_of (userId (req_auth req))) of
           (tr, Inr resp) \<Rightarrow> (tr, resp)
         | (tr, Inl e) \<Rightarrow> (tr, outer_catch e)))"

subsection \<open>The food video endpoint up to its key test (api/generate-food-video.ts)\<close>

text \<open>
  The food video handler checks its request, looks the user up and selects the key by
  the same lines as the video handler; its key-missing response has a code of its own.
  This is its \<^verbatim>\<open>try\<close> block up to that test, for an authenticated user: it
  answers, throws, or goes on to the upload with the key.
\<close>

record GenerateFoodVideoRequest =
  foodImage :: "SourceImage option"
  englishPrompt :: "string option"
  food_durationSeconds :: "rat option"

definition msg_food_image_required :: string where
  \<comment> \<open>a food image is required\<close>
  "msg_food_image_required =
     [CHR 0xEC, CHR 0x9D, CHR 0x8C, CHR 0xEC, CHR 0x8B, CHR 0x9D] @ '' '' @ [CHR 0xEC,
     CHR 0x9D, CHR 0xB4, CHR 0xEB, CHR 0xAF, CHR 0xB8, CHR 0xEC, CHR 0xA7, CHR 0x80,
     CHR 0xEA, CHR 0xB0, CHR 0x80] @ '' '' @ [CHR 0xED, CHR 0x95, CHR 0x84, CHR 0xEC,
     CHR 0x9A, CHR 0x94, CHR 0xED, CHR 0x95, CHR 0xA9, CHR 0xEB, CHR 0x8B, CHR 0x88,
     CHR 0xEB, CHR 0x8B, CHR 0xA4] @ ''.''"

definition msg_english_prompt_required :: string where
  \<comment> \<open>an English prompt is required; convert the prompt first\<close>
  "msg_english_prompt_required =
     [CHR 0xEC, CHR 0x98, CHR 0x81, CHR 0xEC, CHR 0x96, CHR 0xB4] @ '' '' @ [CHR 0xED,
     CHR 0x94, CHR 0x84, CHR 0xEB, CHR 0xA1, CHR 0xAC, CHR 0xED, CHR 0x94, CHR 0x84,
     CHR 0xED, CHR 0x8A, CHR 0xB8, CHR 0xEA, CHR 0xB0, CHR 0x80] @ '' '' @ [CHR 0xED,
     CHR 0x95, CHR 0x84, CHR 0xEC, CHR 0x9A, CHR 0x94, CHR 0xED, CHR 0x95, CHR 0xA9,
     CHR 0xEB, CHR 0x8B, CHR 0x88, CHR 0xEB, CHR 0x8B, CHR 0xA4] @ ''. '' @ [CHR 0xEB,
     CHR 0xA8, CHR 0xBC, CHR 0xEC, CHR 0xA0, CHR 0x80] @ '' '' @ [CHR 0xED, CHR 0x94,
     CHR 0x84, CHR 0xEB, CHR 0xA1, CHR 0xAC, CHR 0xED, CHR 0x94, CHR 0x84, CHR 0xED,
     CHR 0x8A, CHR 0xB8] @ '' '' @ [CHR 0xEB, CHR 0xB3, CHR 0x80, CHR 0xED, CHR 0x99,
     CHR 0x98, CHR 0xEC, CHR 0x9D, CHR 0x84] @ '' '' @ [CHR 0xEC, CHR 0xA7, CHR 0x84,
     CHR 0xED, CHR 0x96, CHR 0x89, CHR 0xED, CHR 0x95, CHR 0xB4] @ '' '' @ [CHR 0xEC,
     CHR 0xA3, CHR 0xBC, CHR 0xEC, CHR 0x84, CHR 0xB8, CHR 0xEC, CHR 0x9A, CHR 0x94] @ ''.''"

datatype food_start = FoodRespond response | FoodThrow js_thrown | FoodProceed string

definition food_handler_start ::
  "World \<Rightarrow> GenerateFoodVideoRequest \<Rightarrow> string \<Rightarrow> event list \<times> food_start" where
  "food_handler_start w reqBody uid =
     (case foodImage reqBody of
        None \<Rightarrow>
          ([], FoodRespond \<lparr> res_status = 400,
                             res_body = ErrorBody msg_food_image_required None \<rparr>)
      | Some img \<Rightarrow>
          if img_data img = [] \<or> img_mimeType img = []
          then ([], FoodRespond \<lparr> res_status = 400,
                                  res_body = ErrorBody msg_food_image_required None \<rparr>)
          else if \<not> truthy (englishPrompt reqBody)
          then ([], FoodRespond \<lparr> res_status = 400,
                                  res_body = ErrorBody msg_english_prompt_required None \<rparr>)
          else
            (case findUserById w uid of
               Inl e \<Rightarrow> ([DbFindUser uid], FoodThrow e)
             | Inr user \<Rightarrow>
                 if \<not> truthy (selectHailuoApiKey user (HAILUO_API_KEY w))
                 then ([DbFindUser uid],
                       FoodRespond \<lparr> res_status = 400,
                                     res_body = ErrorBody msg_key_missing
                                                  (Some ''HAILUO_API_KEY_MISSING'') \<rparr>)
                 else ([DbFindUser uid],
                       FoodProceed (str_of (selectHailuoApiKey user (HAILUO_API_KEY w))))))"

subsection \<open>The OpenAI key (api/lib/openai.ts)\<close>

text \<open>
  \<open>getOpenAIKeyForUser\<close>, applied to the result of the user lookup and the
  environment variable: it throws for a missing user and for a missing key, and
  returns the key otherwise. The scenario endpoint asks for the key and only then
  sends the chat completion request with it.
\<close>

definition getOpenAIKeyForUser :: "User option \<Rightarrow> string option \<Rightarrow> js_thrown + string" where
  "getOpenAIKeyForUser user envKey =
     (case user of
        None \<Rightarrow> Inl (JsError msg_user_not_found)
      | Some u \<Rightarrow>
          if isAdmin u
          then (if \<not> truthy (js_or envKey (openaiApiKey u))
                then Inl (JsError msg_openai_key_missing_admin)
                else Inr (str_of (js_or envKey (openaiApiKey u))))
          else (if \<not> truthy (js_or (openaiApiKey u) envKey)
                then Inl (JsError msg_openai_key_missing)
                else Inr (str_of (js_or (openaiApiKey u) envKey))))"

definition openai_text_request ::
  "User option \<Rightarrow> string option \<Rightarrow> string \<Rightarrow> event list \<times> (js_thrown + string)" where
  "openai_text_request user envKey textModel =
     (case getOpenAIKeyForUser user envKey of
        Inl e \<Rightarrow> ([], Inl e)
      | Inr openaiKey \<Rightarrow> ([OpenAIRequest openaiKey textModel], Inr openaiKey))"

subsection \<open>Notions used to state the properties of the loop and the handler\<close>

text \<open>
  \<open>head_time steps n\<close> is the time since \<^verbatim>\<open>startTime\<close> at the head of
  iteration \<open>n + 1\<close>, that is after \<open>n\<close> iterations: each takes the poll interval
  and its own lateness. \<open>poll_trace\<close> is the calls of the iterations \<open>m + 1\<close> to
  \<open>n\<close>: a wait of the poll interval, then the poll, for each. \<open>iteration_end\<close>
  tells how iteration \<open>i\<close> ends the loop, if it does.
\<close>

fun head_time :: "(nat \<Rightarrow> poll_step) \<Rightarrow> nat \<Rightarrow> nat" where
  "head_time steps 0 = 0"
| "head_time steps (Suc n) = head_time steps n + pollInterval + late (steps (Suc n))"

definition poll_trace :: "string \<Rightarrow> string \<Rightarrow> nat \<Rightarrow> nat \<Rightarrow> event list" where
  "poll_trace apiKey predictionId m n =
     concat (map (\<lambda>i. [Wait pollInterval, PollPrediction apiKey predictionId (Suc i)])
                 [m..<n])"

definition iteration_end :: "(nat \<Rightarrow> poll_step) \<Rightarrow> nat \<Rightarrow> loop_result option" where
  "iteration_end steps i =
     (case poll_try (outcome (steps i)) of
        TryReturn videoUrl \<Rightarrow> Some (LoopReturn videoUrl (head_time steps i))
      | TryThrows pollError \<Rightarrow> map_option LoopThrow (poll_catch pollError i)
      | TryDone \<Rightarrow> None)"

text \<open>
  A run of the loop from poll counter \<open>m\<close> that makes the polls \<open>m + 1\<close> to
  \<open>n\<close>: no iteration before \<open>n\<close> ends the loop and each starts within the
  maximal polling time; then either the head of iteration \<open>n + 1\<close> sees the time
  exceeded and throws the timeout error, or iteration \<open>n\<close> started in time and
  ends the loop.
\<close>

definition loop_spec ::
  "(nat \<Rightarrow> poll_step) \<Rightarrow> string \<Rightarrow> string \<Rightarrow> nat \<Rightarrow> nat
     \<Rightarrow> event list \<times> loop_result \<Rightarrow> bool" where
  "loop_spec steps k p m n run =
     (m \<le> n \<and> fst run = poll_trace k p m n
      \<and> (\<forall>i. m < i \<and> i < n \<longrightarrow>
            iteration_end steps i = None \<and> head_time steps (i - 1) \<le> maxPollingTime)
      \<and> ((maxPollingTime < head_time steps n
           \<and> (m < n \<longrightarrow> iteration_end steps n = None
                         \<and> head_time steps (n - 1) \<le> maxPollingTime)
           \<and> snd run = LoopThrow (timeout_error (head_time steps n)))
         \<or> (m < n \<and> head_time steps (n - 1) \<le> maxPollingTime
           \<and> iteration_end steps n = Some (snd run))))"

text \<open>The text that a poll reporting an error puts into the video generation error.\<close>

definition poll_error_detail :: "PollResult \<Rightarrow> string" where
  "poll_error_detail r =
     str_of (js_or (js_or (pr_error r) (pr_message r)) (Some msg_unknown_detail))"

subsection \<open>Concrete runs\<close>

definition pending :: poll_step where
  "pending =
     \<lparr> late = 0,
       outcome = PollJson \<lparr> pr_status = Some ''processing'', pr_output = None,
                            pr_error = None, pr_message = None \<rparr> \<rparr>"

definition finished :: poll_step where
  "finished =
     \<lparr> late = 0,
       outcome = PollJson \<lparr> pr_status = Some ''success'',
                            pr_output = Some ''https://cdn.example/v.mp4'',
                            pr_error = None, pr_message = None \<rparr> \<rparr>"

definition failing :: poll_step where
  "failing = \<lparr> late = 0, outcome = PollThrows (JsError ''fetch failed'') \<rparr>"

text \<open>
  Sixty polls find the video in progress and poll 61 finds it finished; every poll
  fails; polls 1 to 3 succeed and poll 4 fails; polls 1 to 3 fail and poll 4 finds the
  video finished; poll 2 finds the video finished.
\<close>

definition late_success :: "nat \<Rightarrow> poll_step" where
  "late_success i = (if i < 61 then pending else finished)"

definition always_failing :: "nat \<Rightarrow> poll_step" where
  "always_failing i = failing"

definition fail_at_four :: "nat \<Rightarrow> poll_step" where
  "fail_at_four i = (if i = 4 then failing else pending)"

definition three_failures :: "nat \<Rightarrow> poll_step" where
  "three_failures i = (if i \<le> 3 then failing else finished)"

definition quick_success :: "nat \<Rightarrow> poll_step" where
  "quick_success i = (if i < 2 then pending else finished)"

definition demo_user :: User where
  "demo_user =
     \<lparr> isAdmin = False, hailuoApiKey = Some ''user-key'', openaiApiKey = None \<rparr>"

definition demo_admin :: User where
  "demo_admin =
     \<lparr> isAdmin = True, hailuoApiKey = Some ''admin-own-key'',
       openaiApiKey = Some ''admin-openai-key'' \<rparr>"

definition demo_world :: World where
  "demo_world =
     \<lparr> HAILUO_API_KEY = Some ''env-key'',
       findUserById = (\<lambda>uid. Inr (Some demo_user)),
       sanitizePrompt = (\<lambda>s n. take n s),
       uploadImageToTempUrl = (\<lambda>d m. Inr ''https://tmpfiles.org/dl/1/video_image.png''),
       createPrediction =
         (\<lambda>k p u d. CreateJson \<lparr> cr_status = Some ''success'',
                                  cr_predictionID = Some ''pred-1'',
                                  cr_error = None, cr_message = None,
                                  cr_json = ''{}'' \<rparr>),
       pollPrediction = (\<lambda>k p. quick_success) \<rparr>"

definition keyless_world :: World where
  "keyless_world =
     demo_world \<lparr> HAILUO_API_KEY := None,
                  findUserById := (\<lambda>uid. Inr (Some demo_admin)) \<rparr>"

definition food_request :: GenerateFoodVideoRequest where
  "food_request =
     \<lparr> foodImage = Some \<lparr> img_data = ''BBBB'', img_mimeType = ''image/jpeg'' \<rparr>,
       englishPrompt = Some ''steam rising from a bowl'',
       food_durationSeconds = None \<rparr>"

definition demo_request :: VercelRequest where
  "demo_request =
     \<lparr> req_method = ''POST'',
       req_auth = \<lparr> authenticated = True, userId = Some ''u1'', auth_error = None \<rparr>,
       req_body = \<lparr> sourceImage = Some \<lparr> img_data = ''AAAA'', img_mimeType = ''image/png'' \<rparr>,
                    motionPrompt = Some ''slow zoom'',
                    durationSeconds = Some 8 \<rparr> \<rparr>"

section \<open>The image prompt update endpoint (api/update-image-prompt.ts)\<close>

text \<open>
  This handler takes no user: it does not authenticate, looks nobody up and reads no
  key. It calls \<^verbatim>\<open>ai\<close>, the Gemini client that the module
  \<^verbatim>\<open>lib/gemini.js\<close> exports for the whole application. That module is not
  among the files at hand; what the handler takes from it is a parameter:
  the model name \<^verbatim>\<open>MODELS.TEXT\<close>, the table \<^verbatim>\<open>STYLE_PROMPTS\<close>,
  \<^verbatim>\<open>sanitizePrompt\<close>, and the answer of the client. The call throws, or
  reading its answer throws (\<^verbatim>\<open>JSON.parse\<close>), or the answer gives the field
  \<^verbatim>\<open>imagePrompt\<close>. \<^verbatim>\<open>String.prototype.substring\<close> counts UTF-16
  units, which a byte string does not show, and is a parameter too; so is the message
  of the \<^verbatim>\<open>TypeError\<close> that the engine raises when the table has neither the
  requested style nor \<open>photorealistic\<close> and \<^verbatim>\<open>substring\<close> is read of
  \<^verbatim>\<open>undefined\<close>. The options of the call (response schema, thinking
  configuration) and the CORS headers are not part of the model.
\<close>

record UpdateImagePromptRequest =
  visualDescription :: "string option"
  imageStyle :: "string option"
  tone :: "string option"

record UpdateRequest =
  upd_method :: string
  upd_reqBody :: UpdateImagePromptRequest

datatype generate_outcome = GenerateThrows js_thrown | GenerateImagePrompt "string option"

record GeminiModule =
  MODELS_TEXT :: string
  STYLE_PROMPTS :: "string \<Rightarrow> string option"
  gemini_sanitizePrompt :: "string \<Rightarrow> nat \<Rightarrow> string"
  substring :: "string \<Rightarrow> nat \<Rightarrow> nat \<Rightarrow> string"
  substring_of_undefined :: string
  ai_generateContent :: "string \<Rightarrow> string \<Rightarrow> generate_outcome"

datatype update_body =
    UpdEmpty
  | UpdError string "string option"
  | UpdImagePrompt "string option"

record update_response =
  upd_status :: nat
  upd_body :: update_body

text \<open>The one call that leaves the handler: the global client, with model and prompt.\<close>

datatype update_event = GlobalGenerateContent string string

text \<open>
  The fixed texts of the prompt template, between its six insertions. They are Korean
  instructions to write an English image prompt from the description.
\<close>

definition update_prompt_part0 :: string where
  \<comment> \<open>the text before the description\<close>
  "update_prompt_part0 =
     [CHR 0xEB, CHR 0x8B, CHR 0xB9, CHR 0xEC, CHR 0x8B, CHR 0xA0, CHR 0xEC, CHR 0x9D,
     CHR 0x80] @ '' AI '' @ [CHR 0xEC, CHR 0x9D, CHR 0xB4, CHR 0xEB, CHR 0xAF, CHR 0xB8,
     CHR 0xEC, CHR 0xA7, CHR 0x80] @ '' '' @ [CHR 0xEC, CHR 0x83, CHR 0x9D, CHR 0xEC,
     CHR 0x84, CHR 0xB1] @ ''(Stable Diffusion, Midjourney, DALL-E)'' @ [CHR 0xEC, CHR 0x9D,
     CHR 0x84] @ '' '' @ [CHR 0xEC, CHR 0x9C, CHR 0x84, CHR 0xED, CHR 0x95, CHR 0x9C]
     @ '' '' @ [CHR 0xED, CHR 0x94, CHR 0x84, CHR 0xEB, CHR 0xA1, CHR 0xAC, CHR 0xED,
     CHR 0x94, CHR 0x84, CHR 0xED, CHR 0x8A, CHR 0xB8] @ '' '' @ [CHR 0xEC, CHR 0x9E,
     CHR 0x91, CHR 0xEC, CHR 0x84, CHR 0xB1] @ '' '' @ [CHR 0xEC, CHR 0xA0, CHR 0x84,
     CHR 0xEB, CHR 0xAC, CHR 0xB8, CHR 0xEA, CHR 0xB0, CHR 0x80, CHR 0xEC, CHR 0x9E,
     CHR 0x85, CHR 0xEB, CHR 0x8B, CHR 0x88, CHR 0xEB, CHR 0x8B, CHR 0xA4] @ ''.''
     @ [CHR 0x0A, CHR 0xED, CHR 0x95, CHR 0x9C, CHR 0xEA, CHR 0xB5, CHR 0xAD, CHR 0xEC,
     CHR 0x96, CHR 0xB4, CHR 0xEB, CHR 0xA1, CHR 0x9C] @ '' '' @ [CHR 0xEB, CHR 0x90,
     CHR 0x9C] @ '' '' @ [CHR 0xEC, CHR 0x8B, CHR 0x9C, CHR 0xEA, CHR 0xB0, CHR 0x81,
     CHR 0xEC, CHR 0xA0, CHR 0x81] @ '' '' @ [CHR 0xEB, CHR 0xAC, CHR 0x98, CHR 0xEC,
     CHR 0x82, CHR 0xAC, CHR 0xEB, CHR 0xA5, CHR 0xBC] @ '' **AI '' @ [CHR 0xEC, CHR 0x9D,
     CHR 0xB4, CHR 0xEB, CHR 0xAF, CHR 0xB8, CHR 0xEC, CHR 0xA7, CHR 0x80] @ '' ''
     @ [CHR 0xEC, CHR 0x83, CHR 0x9D, CHR 0xEC, CHR 0x84, CHR 0xB1, CHR 0xEC, CHR 0x97,
     CHR 0x90] @ '' '' @ [CHR 0xEC, CHR 0xB5, CHR 0x9C, CHR 0xEC, CHR 0xA0, CHR 0x81,
     CHR 0xED, CHR 0x99, CHR 0x94, CHR 0xEB, CHR 0x90, CHR 0x9C] @ '' '' @ [CHR 0xEC,
     CHR 0x83, CHR 0x81, CHR 0xEC, CHR 0x84, CHR 0xB8, CHR 0xED, CHR 0x95, CHR 0x9C] @ '' ''
     @ [CHR 0xEC, CHR 0x98, CHR 0x81, CHR 0xEC, CHR 0x96, CHR 0xB4] @ '' '' @ [CHR 0xED,
     CHR 0x94, CHR 0x84, CHR 0xEB, CHR 0xA1, CHR 0xAC, CHR 0xED, CHR 0x94, CHR 0x84,
     CHR 0xED, CHR 0x8A, CHR 0xB8] @ ''**'' @ [CHR 0xEB, CHR 0xA1, CHR 0x9C] @ '' ''
     @ [CHR 0xEB, CHR 0xB3, CHR 0x80, CHR 0xED, CHR 0x99, CHR 0x98, CHR 0xED, CHR 0x95,
     CHR 0x98, CHR 0xEC, CHR 0x84, CHR 0xB8, CHR 0xEC, CHR 0x9A, CHR 0x94] @ ''.''
     @ [CHR 0x0A, CHR 0x0A] @ ''**'' @ [CHR 0xEC, CHR 0xA4, CHR 0x91, CHR 0xEC, CHR 0x9A,
     CHR 0x94] @ '': '' @ [CHR 0xEB, CHR 0x8B, CHR 0xA8, CHR 0xEC, CHR 0x88, CHR 0x9C]
     @ '' '' @ [CHR 0xEB, CHR 0xB2, CHR 0x88, CHR 0xEC, CHR 0x97, CHR 0xAD, CHR 0xEC,
     CHR 0x9D, CHR 0xB4] @ '' '' @ [CHR 0xEC, CHR 0x95, CHR 0x84, CHR 0xEB, CHR 0x8B,
     CHR 0x88, CHR 0xEB, CHR 0x9D, CHR 0xBC] @ '', AI'' @ [CHR 0xEA, CHR 0xB0, CHR 0x80]
     @ '' '' @ [CHR 0xEC, CHR 0xA0, CHR 0x95, CHR 0xED, CHR 0x99, CHR 0x95, CHR 0xED,
     CHR 0x95, CHR 0x98, CHR 0xEA, CHR 0xB3, CHR 0xA0] @ '' '' @ [CHR 0xEC, CHR 0x95,
     CHR 0x84, CHR 0xEB, CHR 0xA6, CHR 0x84, CHR 0xEB, CHR 0x8B, CHR 0xA4, CHR 0xEC,
     CHR 0x9A, CHR 0xB4] @ '' '' @ [CHR 0xEC, CHR 0x9D, CHR 0xB4, CHR 0xEB, CHR 0xAF,
     CHR 0xB8, CHR 0xEC, CHR 0xA7, CHR 0x80, CHR 0xEB, CHR 0xA5, CHR 0xBC] @ '' ''
     @ [CHR 0xEC, CHR 0x83, CHR 0x9D, CHR 0xEC, CHR 0x84, CHR 0xB1, CHR 0xED, CHR 0x95,
     CHR 0xA0] @ '' '' @ [CHR 0xEC, CHR 0x88, CHR 0x98] @ '' '' @ [CHR 0xEC, CHR 0x9E,
     CHR 0x88, CHR 0xEB, CHR 0x8F, CHR 0x84, CHR 0xEB, CHR 0xA1, CHR 0x9D] @ '' ''
     @ [CHR 0xEC, CHR 0x8B, CHR 0x9C, CHR 0xEA, CHR 0xB0, CHR 0x81, CHR 0xEC, CHR 0xA0,
     CHR 0x81] @ '' '' @ [CHR 0xEC, CHR 0x84, CHR 0xB8, CHR 0xEB, CHR 0xB6, CHR 0x80,
     CHR 0xEC, CHR 0x82, CHR 0xAC, CHR 0xED, CHR 0x95, CHR 0xAD, CHR 0xEC, CHR 0x9D,
     CHR 0x84] @ '' '' @ [CHR 0xED, CHR 0x92, CHR 0x8D, CHR 0xEB, CHR 0xB6, CHR 0x80,
     CHR 0xED, CHR 0x95, CHR 0x98, CHR 0xEA, CHR 0xB2, CHR 0x8C] @ '' '' @ [CHR 0xEC,
     CHR 0xB6, CHR 0x94, CHR 0xEA, CHR 0xB0, CHR 0x80, CHR 0xED, CHR 0x95, CHR 0xB4,
     CHR 0xEC, CHR 0x95, CHR 0xBC] @ '' '' @ [CHR 0xED, CHR 0x95, CHR 0xA9, CHR 0xEB,
     CHR 0x8B, CHR 0x88, CHR 0xEB, CHR 0x8B, CHR 0xA4] @ ''!**'' @ [CHR 0x0A, CHR 0x0A]
     @ ''## '' @ [CHR 0xEC, CHR 0x9E, CHR 0x85, CHR 0xEB, CHR 0xA0, CHR 0xA5, CHR 0x0A]
     @ ''- **'' @ [CHR 0xEC, CHR 0x8B, CHR 0x9C, CHR 0xEA, CHR 0xB0, CHR 0x81, CHR 0xEC,
     CHR 0xA0, CHR 0x81] @ '' '' @ [CHR 0xEB, CHR 0xAC, CHR 0x98, CHR 0xEC, CHR 0x82,
     CHR 0xAC] @ '' ('' @ [CHR 0xED, CHR 0x95, CHR 0x9C, CHR 0xEA, CHR 0xB5, CHR 0xAD,
     CHR 0xEC, CHR 0x96, CHR 0xB4] @ '')**: '' @ [CHR 0x22]"

definition update_prompt_part1 :: string where
  \<comment> \<open>the text between the description and the image style\<close>
  "update_prompt_part1 =
     [CHR 0x22, CHR 0x0A] @ ''- **'' @ [CHR 0xEC, CHR 0x9D, CHR 0xB4, CHR 0xEB, CHR 0xAF,
     CHR 0xB8, CHR 0xEC, CHR 0xA7, CHR 0x80] @ '' '' @ [CHR 0xEC, CHR 0x8A, CHR 0xA4,
     CHR 0xED, CHR 0x83, CHR 0x80, CHR 0xEC, CHR 0x9D, CHR 0xBC] @ ''**: ''"

definition update_prompt_part2 :: string where
  \<comment> \<open>the text between the image style and the tone\<close>
  "update_prompt_part2 =
     [CHR 0x0A] @ ''- **'' @ [CHR 0xED, CHR 0x86, CHR 0xA4] @ ''/'' @ [CHR 0xEB, CHR 0xB6,
     CHR 0x84, CHR 0xEC, CHR 0x9C, CHR 0x84, CHR 0xEA, CHR 0xB8, CHR 0xB0] @ ''**: ''"

definition update_prompt_part3 :: string where
  \<comment> \<open>the text between the tone and the first hundred units of the style prompt\<close>
  "update_prompt_part3 =
     [CHR 0x0A, CHR 0x0A] @ ''## '' @ [CHR 0xED, CHR 0x94, CHR 0x84, CHR 0xEB, CHR 0xA1,
     CHR 0xAC, CHR 0xED, CHR 0x94, CHR 0x84, CHR 0xED, CHR 0x8A, CHR 0xB8] @ '' ''
     @ [CHR 0xED, CHR 0x95, CHR 0x84, CHR 0xEC, CHR 0x88, CHR 0x98] @ '' '' @ [CHR 0xEA,
     CHR 0xB5, CHR 0xAC, CHR 0xEC, CHR 0x84, CHR 0xB1, CHR 0xEC, CHR 0x9A, CHR 0x94,
     CHR 0xEC, CHR 0x86, CHR 0x8C] @ '' ('' @ [CHR 0xEB, CHR 0xAA, CHR 0xA8, CHR 0xEB,
     CHR 0x91, CHR 0x90] @ '' '' @ [CHR 0xED, CHR 0x8F, CHR 0xAC, CHR 0xED, CHR 0x95,
     CHR 0xA8, CHR 0xED, CHR 0x95, CHR 0xB4, CHR 0xEC, CHR 0x95, CHR 0xBC] @ '' ''
     @ [CHR 0xED, CHR 0x95, CHR 0xA8] @ '')'' @ [CHR 0x0A] @ ''1. **'' @ [CHR 0xEC,
     CHR 0x95, CHR 0x84, CHR 0xED, CHR 0x8A, CHR 0xB8] @ '' '' @ [CHR 0xEC, CHR 0x8A,
     CHR 0xA4, CHR 0xED, CHR 0x83, CHR 0x80, CHR 0xEC, CHR 0x9D, CHR 0xBC] @ '' ''
     @ [CHR 0xED, CHR 0x94, CHR 0x84, CHR 0xEB, CHR 0xA6, CHR 0xAC, CHR 0xED, CHR 0x94,
     CHR 0xBD, CHR 0xEC, CHR 0x8A, CHR 0xA4] @ ''**: '' @ [CHR 0x22]"

definition update_prompt_part4 :: string where
  \<comment> \<open>the text between the two cuts of the style prompt\<close>
  "update_prompt_part4 =
     ''...'' @ [CHR 0x22, CHR 0xEB, CHR 0xA1, CHR 0x9C] @ '' '' @ [CHR 0xEC, CHR 0x8B,
     CHR 0x9C, CHR 0xEC, CHR 0x9E, CHR 0x91, CHR 0x0A] @ ''2. **'' @ [CHR 0xEC, CHR 0xA3,
     CHR 0xBC, CHR 0xEC, CHR 0xB2, CHR 0xB4] @ ''(Subject)**: '' @ [CHR 0xEB, CHR 0x88,
     CHR 0x84, CHR 0xEA, CHR 0xB0, CHR 0x80] @ ''/'' @ [CHR 0xEB, CHR 0xAC, CHR 0xB4,
     CHR 0xEC, CHR 0x97, CHR 0x87, CHR 0xEC, CHR 0x9D, CHR 0xB4] @ '' '' @ [CHR 0xED,
     CHR 0x99, CHR 0x94, CHR 0xEB, CHR 0xA9, CHR 0xB4, CHR 0xEC, CHR 0x97, CHR 0x90] @ '' ''
     @ [CHR 0xEC, CHR 0x9E, CHR 0x88, CHR 0xEB, CHR 0x8A, CHR 0x94, CHR 0xEC, CHR 0xA7,
     CHR 0x80] @ '' - '' @ [CHR 0x22] @ ''Korean man in his late 20s'' @ [CHR 0x22] @ '', ''
     @ [CHR 0x22] @ ''Korean woman with long black hair'' @ [CHR 0x22, CHR 0x0A] @ ''3. **''
     @ [CHR 0xED, CHR 0x96, CHR 0x89, CHR 0xEB, CHR 0x8F, CHR 0x99] @ ''/'' @ [CHR 0xEC,
     CHR 0x9E, CHR 0x90, CHR 0xEC, CHR 0x84, CHR 0xB8] @ ''(Action/Pose)**: '' @ [CHR 0xEB,
     CHR 0xAC, CHR 0xB4, CHR 0xEC, CHR 0x97, CHR 0x87, CHR 0xEC, CHR 0x9D, CHR 0x84] @ '' ''
     @ [CHR 0xED, CHR 0x95, CHR 0x98, CHR 0xEA, CHR 0xB3, CHR 0xA0] @ '' '' @ [CHR 0xEC,
     CHR 0x9E, CHR 0x88, CHR 0xEB, CHR 0x8A, CHR 0x94, CHR 0xEC, CHR 0xA7, CHR 0x80]
     @ '' - '' @ [CHR 0x22] @ ''holding a gift box'' @ [CHR 0x22] @ '', '' @ [CHR 0x22]
     @ ''gazing out the window'' @ [CHR 0x22, CHR 0x0A] @ ''4. **'' @ [CHR 0xED, CHR 0x91,
     CHR 0x9C, CHR 0xEC, CHR 0xA0, CHR 0x95] @ ''/'' @ [CHR 0xEA, CHR 0xB0, CHR 0x90,
     CHR 0xEC, CHR 0xA0, CHR 0x95] @ ''(Expression)**: '' @ [CHR 0xEC, CHR 0x96, CHR 0xBC,
     CHR 0xEA, CHR 0xB5, CHR 0xB4] @ '' '' @ [CHR 0xED, CHR 0x91, CHR 0x9C, CHR 0xEC,
     CHR 0xA0, CHR 0x95, CHR 0xEA, CHR 0xB3, CHR 0xBC] @ '' '' @ [CHR 0xEA, CHR 0xB0,
     CHR 0x90, CHR 0xEC, CHR 0xA0, CHR 0x95] @ '' - '' @ [CHR 0x22]
     @ ''warm smile showing relief'' @ [CHR 0x22] @ '', '' @ [CHR 0x22]
     @ ''tearful eyes filled with gratitude'' @ [CHR 0x22, CHR 0x0A] @ ''5. **''
     @ [CHR 0xEC, CHR 0xB9, CHR 0xB4, CHR 0xEB, CHR 0xA9, CHR 0x94, CHR 0xEB, CHR 0x9D,
     CHR 0xBC] @ ''(Camera)**: '' @ [CHR 0xEC, CHR 0x83, CHR 0xB7] @ '' '' @ [CHR 0xED,
     CHR 0x83, CHR 0x80, CHR 0xEC, CHR 0x9E, CHR 0x85, CHR 0xEA, CHR 0xB3, CHR 0xBC] @ '' ''
     @ [CHR 0xEC, CHR 0x95, CHR 0xB5, CHR 0xEA, CHR 0xB8, CHR 0x80] @ '' - '' @ [CHR 0x22]
     @ ''close-up shot'' @ [CHR 0x22] @ '', '' @ [CHR 0x22] @ ''medium shot from below''
     @ [CHR 0x22] @ '', '' @ [CHR 0x22] @ ''over-the-shoulder view'' @ [CHR 0x22, CHR 0x0A]
     @ ''6. **'' @ [CHR 0xEC, CHR 0xA1, CHR 0xB0, CHR 0xEB, CHR 0xAA, CHR 0x85]
     @ ''(Lighting)**: '' @ [CHR 0xEB, CHR 0xB9, CHR 0x9B, CHR 0xEC, CHR 0x9D, CHR 0x98]
     @ '' '' @ [CHR 0xEC, CHR 0xA2, CHR 0x85, CHR 0xEB, CHR 0xA5, CHR 0x98, CHR 0xEC,
     CHR 0x99, CHR 0x80] @ '' '' @ [CHR 0xEB, CHR 0xB0, CHR 0xA9, CHR 0xED, CHR 0x96,
     CHR 0xA5] @ '' - '' @ [CHR 0x22] @ ''soft golden hour sunlight from left'' @ [CHR 0x22]
     @ '', '' @ [CHR 0x22] @ ''dramatic backlight'' @ [CHR 0x22, CHR 0x0A] @ ''7. **''
     @ [CHR 0xEB, CHR 0xB0, CHR 0xB0, CHR 0xEA, CHR 0xB2, CHR 0xBD] @ ''/'' @ [CHR 0xED,
     CHR 0x99, CHR 0x98, CHR 0xEA, CHR 0xB2, CHR 0xBD] @ ''(Environment)**: '' @ [CHR 0xEC,
     CHR 0x9E, CHR 0xA5, CHR 0xEC, CHR 0x86, CHR 0x8C, CHR 0xEC, CHR 0x99, CHR 0x80] @ '' ''
     @ [CHR 0xEC, CHR 0x84, CHR 0xB8, CHR 0xEB, CHR 0xB6, CHR 0x80, CHR 0xEC, CHR 0x82,
     CHR 0xAC, CHR 0xED, CHR 0x95, CHR 0xAD] @ '' - '' @ [CHR 0x22]
     @ ''cozy Seoul apartment'' @ [CHR 0x22] @ '', '' @ [CHR 0x22]
     @ ''rainy night street with neon reflections'' @ [CHR 0x22, CHR 0x0A] @ ''8. **''
     @ [CHR 0xEC, CHR 0x83, CHR 0x89, CHR 0xEA, CHR 0xB0, CHR 0x90]
     @ ''(Color Palette)**: '' @ [CHR 0xEC, CHR 0xA0, CHR 0x84, CHR 0xEC, CHR 0xB2,
     CHR 0xB4] @ '' '' @ [CHR 0xEC, CHR 0x83, CHR 0x89, CHR 0xEC, CHR 0x83, CHR 0x81]
     @ '' '' @ [CHR 0xEB, CHR 0xB6, CHR 0x84, CHR 0xEC, CHR 0x9C, CHR 0x84, CHR 0xEA,
     CHR 0xB8, CHR 0xB0] @ '' - '' @ [CHR 0x22] @ ''warm amber tones'' @ [CHR 0x22] @ '', ''
     @ [CHR 0x22] @ ''cool blue and gray palette'' @ [CHR 0x22, CHR 0x0A] @ ''9. **''
     @ [CHR 0xEB, CHR 0xB6, CHR 0x84, CHR 0xEC, CHR 0x9C, CHR 0x84, CHR 0xEA, CHR 0xB8,
     CHR 0xB0] @ ''(Atmosphere)**: '' @ [CHR 0xEA, CHR 0xB0, CHR 0x90, CHR 0xEC, CHR 0xA0,
     CHR 0x95, CHR 0xEC, CHR 0xA0, CHR 0x81] @ '' '' @ [CHR 0xEB, CHR 0xB6, CHR 0x84,
     CHR 0xEC, CHR 0x9C, CHR 0x84, CHR 0xEA, CHR 0xB8, CHR 0xB0] @ '' - '' @ [CHR 0x22]
     @ ''heartwarming family moment'' @ [CHR 0x22] @ '', '' @ [CHR 0x22]
     @ ''melancholic reflection'' @ [CHR 0x22, CHR 0x0A, CHR 0x0A] @ ''## '' @ [CHR 0xEB,
     CHR 0x82, CHR 0x98, CHR 0xEC, CHR 0x81, CHR 0x9C] @ '' '' @ [CHR 0xEC, CHR 0x98,
     CHR 0x88, CHR 0xEC, CHR 0x8B, CHR 0x9C] @ '' vs '' @ [CHR 0xEC, CHR 0xA2, CHR 0x8B,
     CHR 0xEC, CHR 0x9D, CHR 0x80] @ '' '' @ [CHR 0xEC, CHR 0x98, CHR 0x88, CHR 0xEC,
     CHR 0x8B, CHR 0x9C, CHR 0x0A, CHR 0x0A] @ ''**'' @ [CHR 0xEB, CHR 0x82, CHR 0x98,
     CHR 0xEC, CHR 0x81, CHR 0x9C] @ '' '' @ [CHR 0xEC, CHR 0x98, CHR 0x88, CHR 0xEC,
     CHR 0x8B, CHR 0x9C] @ '' ('' @ [CHR 0xEB, CHR 0x8B, CHR 0xA8, CHR 0xEC, CHR 0x88,
     CHR 0x9C] @ '' '' @ [CHR 0xEB, CHR 0xB2, CHR 0x88, CHR 0xEC, CHR 0x97, CHR 0xAD]
     @ '' - '' @ [CHR 0xEC, CHR 0xA0, CHR 0x88, CHR 0xEB, CHR 0x8C, CHR 0x80] @ '' ''
     @ [CHR 0xEA, CHR 0xB8, CHR 0x88, CHR 0xEC, CHR 0xA7, CHR 0x80] @ ''!):**'' @ [CHR 0x0A,
     CHR 0x22] @ ''Brother giving a gift to younger brother, stacks of cash on ''
     @ ''table, sunset glow, emotional bond'' @ [CHR 0x22, CHR 0x0A, CHR 0x0A] @ ''**''
     @ [CHR 0xEC, CHR 0xA2, CHR 0x8B, CHR 0xEC, CHR 0x9D, CHR 0x80] @ '' '' @ [CHR 0xEC,
     CHR 0x98, CHR 0x88, CHR 0xEC, CHR 0x8B, CHR 0x9C] @ '' (AI '' @ [CHR 0xEC, CHR 0x9D,
     CHR 0xB4, CHR 0xEB, CHR 0xAF, CHR 0xB8, CHR 0xEC, CHR 0xA7, CHR 0x80] @ '' ''
     @ [CHR 0xEC, CHR 0x83, CHR 0x9D, CHR 0xEC, CHR 0x84, CHR 0xB1, CHR 0xEC, CHR 0x97,
     CHR 0x90] @ '' '' @ [CHR 0xEC, CHR 0xB5, CHR 0x9C, CHR 0xEC, CHR 0xA0, CHR 0x81,
     CHR 0xED, CHR 0x99, CHR 0x94] @ ''):**'' @ [CHR 0x0A, CHR 0x22]"

definition update_prompt_part5 :: string where
  \<comment> \<open>the text after the first fifty units of the style prompt\<close>
  "update_prompt_part5 =
     ''... Korean young man in his late 20s with a warm relieved ''
     @ ''smile handing a beautifully wrapped gift box to his teenage ''
     @ ''younger brother, both sitting on a cozy beige living room ''
     @ ''sofa, medium shot with shallow depth of field focusing on ''
     @ ''their emotional exchange, soft afternoon golden sunlight ''
     @ ''streaming through sheer white curtains, warm amber and cream ''
     @ ''color palette, heartwarming family moment filled with ''
     @ ''gratitude and reconciliation, cinematic composition'' @ [CHR 0x22, CHR 0x0A,
     CHR 0x0A] @ ''## '' @ [CHR 0xEC, CHR 0xB6, CHR 0x9C, CHR 0xEB, CHR 0xA0, CHR 0xA5]
     @ '' '' @ [CHR 0xEA, CHR 0xB7, CHR 0x9C, CHR 0xEC, CHR 0xB9, CHR 0x99, CHR 0x0A]
     @ ''- '' @ [CHR 0xEB, CHR 0xB0, CHR 0x98, CHR 0xEB, CHR 0x93, CHR 0x9C, CHR 0xEC,
     CHR 0x8B, CHR 0x9C] @ '' '' @ [CHR 0xEC, CHR 0x98, CHR 0x81, CHR 0xEC, CHR 0x96,
     CHR 0xB4, CHR 0xEB, CHR 0xA1, CHR 0x9C] @ '' '' @ [CHR 0xEC, CHR 0x9E, CHR 0x91,
     CHR 0xEC, CHR 0x84, CHR 0xB1, CHR 0x0A] @ ''- '' @ [CHR 0xEC, CHR 0xB5, CHR 0x9C,
     CHR 0xEC, CHR 0x86, CHR 0x8C] @ '' 50'' @ [CHR 0xEB, CHR 0x8B, CHR 0xA8, CHR 0xEC,
     CHR 0x96, CHR 0xB4] @ '' '' @ [CHR 0xEC, CHR 0x9D, CHR 0xB4, CHR 0xEC, CHR 0x83,
     CHR 0x81, CHR 0xEC, CHR 0x9D, CHR 0x98] @ '' '' @ [CHR 0xEC, CHR 0x83, CHR 0x81,
     CHR 0xEC, CHR 0x84, CHR 0xB8, CHR 0xED, CHR 0x95, CHR 0x9C] @ '' '' @ [CHR 0xED,
     CHR 0x94, CHR 0x84, CHR 0xEB, CHR 0xA1, CHR 0xAC, CHR 0xED, CHR 0x94, CHR 0x84,
     CHR 0xED, CHR 0x8A, CHR 0xB8, CHR 0x0A] @ ''- '' @ [CHR 0xED, CHR 0x95, CHR 0x9C,
     CHR 0xEA, CHR 0xB5, CHR 0xAD, CHR 0xEC, CHR 0x9D, CHR 0xB8] @ '' '' @ [CHR 0xEC,
     CHR 0x9D, CHR 0xB8, CHR 0xEB, CHR 0xAC, CHR 0xBC, CHR 0xEC, CHR 0x9D, CHR 0x80] @ '' ''
     @ [CHR 0xEB, CHR 0xB0, CHR 0x98, CHR 0xEB, CHR 0x93, CHR 0x9C, CHR 0xEC, CHR 0x8B,
     CHR 0x9C] @ '' '' @ [CHR 0x22] @ ''Korean'' @ [CHR 0x22] @ '' '' @ [CHR 0xEB, CHR 0xAA,
     CHR 0x85, CHR 0xEC, CHR 0x8B, CHR 0x9C, CHR 0x0A] @ ''- '' @ [CHR 0xEC, CHR 0x9B,
     CHR 0x90, CHR 0xEB, CHR 0xB3, CHR 0xB8] @ '' '' @ [CHR 0xED, CHR 0x95, CHR 0x9C,
     CHR 0xEA, CHR 0xB5, CHR 0xAD, CHR 0xEC, CHR 0x96, CHR 0xB4] @ '' '' @ [CHR 0xEB,
     CHR 0xAC, CHR 0x98, CHR 0xEC, CHR 0x82, CHR 0xAC, CHR 0xEC, CHR 0x9D, CHR 0x98] @ '' ''
     @ [CHR 0xED, CHR 0x95, CHR 0xB5, CHR 0xEC, CHR 0x8B, CHR 0xAC] @ '' '' @ [CHR 0xEB,
     CHR 0x82, CHR 0xB4, CHR 0xEC, CHR 0x9A, CHR 0xA9, CHR 0xEC, CHR 0x9D, CHR 0x80] @ '' ''
     @ [CHR 0xEB, CHR 0xB0, CHR 0x98, CHR 0xEB, CHR 0x93, CHR 0x9C, CHR 0xEC, CHR 0x8B,
     CHR 0x9C] @ '' '' @ [CHR 0xED, CHR 0x8F, CHR 0xAC, CHR 0xED, CHR 0x95, CHR 0xA8,
     CHR 0x0A] @ ''- '' @ [CHR 0xEC, CHR 0x9B, CHR 0x90, CHR 0xEB, CHR 0xB3, CHR 0xB8,
     CHR 0xEC, CHR 0x97, CHR 0x90] @ '' '' @ [CHR 0xEC, CHR 0x97, CHR 0x86, CHR 0xEB,
     CHR 0x8D, CHR 0x94, CHR 0xEB, CHR 0x9D, CHR 0xBC, CHR 0xEB, CHR 0x8F, CHR 0x84] @ '' ''
     @ [CHR 0xEC, CHR 0x9D, CHR 0xB4, CHR 0xEB, CHR 0xAF, CHR 0xB8, CHR 0xEC, CHR 0xA7,
     CHR 0x80] @ '' '' @ [CHR 0xEC, CHR 0x83, CHR 0x9D, CHR 0xEC, CHR 0x84, CHR 0xB1,
     CHR 0xEC, CHR 0x97, CHR 0x90] @ '' '' @ [CHR 0xED, CHR 0x95, CHR 0x84, CHR 0xEC,
     CHR 0x9A, CHR 0x94, CHR 0xED, CHR 0x95, CHR 0x9C] @ '' '' @ [CHR 0xEC, CHR 0x8B,
     CHR 0x9C, CHR 0xEA, CHR 0xB0, CHR 0x81, CHR 0xEC, CHR 0xA0, CHR 0x81] @ '' ''
     @ [CHR 0xEC, CHR 0x84, CHR 0xB8, CHR 0xEB, CHR 0xB6, CHR 0x80, CHR 0xEC, CHR 0x82,
     CHR 0xAC, CHR 0xED, CHR 0x95, CHR 0xAD, CHR 0xEC, CHR 0x9D, CHR 0x80] @ '' ''
     @ [CHR 0xEC, CHR 0x9E, CHR 0x90, CHR 0xEC, CHR 0x97, CHR 0xB0, CHR 0xEC, CHR 0x8A,
     CHR 0xA4, CHR 0xEB, CHR 0x9F, CHR 0xBD, CHR 0xEA, CHR 0xB2, CHR 0x8C] @ '' ''
     @ [CHR 0xEC, CHR 0xB6, CHR 0x94, CHR 0xEA, CHR 0xB0, CHR 0x80]"

text \<open>
  The two destructuring defaults apply when the field is absent, and the style text is
  \<^verbatim>\<open>STYLE_PROMPTS[imageStyle] || STYLE_PROMPTS.photorealistic\<close>.
\<close>

definition update_imageStyle :: "UpdateImagePromptRequest \<Rightarrow> string" where
  "update_imageStyle reqBody =
     (case imageStyle reqBody of None \<Rightarrow> ''photorealistic'' | Some s \<Rightarrow> s)"

definition update_tone :: "UpdateImagePromptRequest \<Rightarrow> string" where
  "update_tone reqBody = (case tone reqBody of None \<Rightarrow> ''emotional'' | Some t \<Rightarrow> t)"

definition update_stylePromptText ::
  "GeminiModule \<Rightarrow> UpdateImagePromptRequest \<Rightarrow> string option" where
  "update_stylePromptText g reqBody =
     js_or (STYLE_PROMPTS g (update_imageStyle reqBody)) (STYLE_PROMPTS g ''photorealistic'')"

text \<open>The prompt that the handler builds from the request and the style text.\<close>

definition update_prompt ::
  "GeminiModule \<Rightarrow> UpdateImagePromptRequest \<Rightarrow> string \<Rightarrow> string" where
  "update_prompt g reqBody stylePromptText =
     update_prompt_part0 @
     gemini_sanitizePrompt g (str_of (visualDescription reqBody)) 2000 @
     update_prompt_part1 @ update_imageStyle reqBody @
     update_prompt_part2 @ update_tone reqBody @
     update_prompt_part3 @ substring g stylePromptText 0 100 @
     update_prompt_part4 @ substring g stylePromptText 0 50 @
     update_prompt_part5"

text \<open>What the \<^verbatim>\<open>catch\<close> block answers.\<close>

definition update_catch :: "js_thrown \<Rightarrow> update_response" where
  "update_catch e =
     \<lparr> upd_status = 500,
       upd_body = UpdError
         (''Image prompt update failed: '' @
          (case e of JsError m \<Rightarrow> m | JsOther s \<Rightarrow> ''Unknown error''))
         (Some ''GENERATION_FAILED'') \<rparr>"

definition update_image_prompt_handler ::
  "GeminiModule \<Rightarrow> UpdateRequest \<Rightarrow> update_event list \<times> update_response" where
  "update_image_prompt_handler g req =
     (if upd_method req = ''OPTIONS''
      then ([], \<lparr> upd_status = 200, upd_body = UpdEmpty \<rparr>)
      else if upd_method req \<noteq> ''POST''
      then ([], \<lparr> upd_status = 405, upd_body = UpdError ''Method not allowed'' None \<rparr>)
      else if \<not> truthy (visualDescription (upd_reqBody req))
              \<or> length (trim (str_of (visualDescription (upd_reqBody req)))) = 0
      then ([], \<lparr> upd_status = 400,
                  upd_body = UpdError ''visualDescription is required'' None \<rparr>)
      else
        (case update_stylePromptText g (upd_reqBody req) of
           None \<Rightarrow> ([], update_catch (JsError (substring_of_undefined g)))
         | Some stylePromptText \<Rightarrow>
             (let prompt = update_prompt g (upd_reqBody req) stylePromptText
              in (case ai_generateContent g (MODELS_TEXT g) prompt of
                    GenerateImagePrompt p \<Rightarrow>
                      ([GlobalGenerateContent (MODELS_TEXT g) prompt],
                       \<lparr> upd_status = 200, upd_body = UpdImagePrompt p \<rparr>)
                  | GenerateThrows e \<Rightarrow>
                      ([GlobalGenerateContent (MODELS_TEXT g) prompt], update_catch e)))))"

text \<open>A module and a request to run the handler on.\<close>

definition demo_gemini :: GeminiModule where
  "demo_gemini =
     \<lparr> MODELS_TEXT = ''gemini-text'',
       STYLE_PROMPTS =
         (\<lambda>style. if style = ''photorealistic'' then Some ''photo of'' else None),
       gemini_sanitizePrompt = (\<lambda>s n. take n s),
       substring = (\<lambda>s i j. take (j - i) (drop i s)),
       substring_of_undefined = ''Cannot read properties of undefined'',
       ai_generateContent =
         (\<lambda>model prompt. GenerateImagePrompt (Some ''A dog on a beach'')) \<rparr>"

definition update_request :: UpdateRequest where
  "update_request =
     \<lparr> upd_method = ''POST'',
       upd_reqBody = \<lparr> visualDescription = Some ''dog'', imageStyle = None, tone = None \<rparr> \<rparr>"

section \<open>Properties of the image prompt builder\<close>

lemma MATERIALS_prompt_nonempty: "MATERIALS_prompt k \<noteq> []"
  by (cases k) simp_all

lemma QUALITY_KEYWORDS_prompt_nonempty: "QUALITY_KEYWORDS_prompt k \<noteq> []"
  by (cases k) simp_all

lemma filter_Boolean_map_id:
  "(\<And>k. f k \<noteq> []) \<Longrightarrow> filter_Boolean (map f ks) = map f ks"
  by (induction ks) (simp_all add: filter_Boolean_def)

lemma filter_Boolean_opt_eq:
  "filter_Boolean_opt vs =
     filter (\<lambda>b. b \<noteq> []) (map (\<lambda>v. case v of None \<Rightarrow> [] | Some s \<Rightarrow> s) vs)"
proof (induction vs)
  case Nil
  show ?case by simp
next
  case (Cons v vs)
  then show ?case by (cases v) simp_all
qed

lemma material_string_eq:
  "(if length (map MATERIALS_prompt ms) > 0 then join '', '' (map MATERIALS_prompt ms) else [])
     = join '', '' (map MATERIALS_prompt ms)"
  by (cases ms) simp_all

lemma envPreset_eq:
  "(if truthy ce then (case ce of Some s \<Rightarrow> s | None \<Rightarrow> []) else p)
     = (case ce of None \<Rightarrow> p | Some s \<Rightarrow> if s = [] then p else s)"
  by (cases ce) (simp_all add: truthy_def)

lemma buildImagePrompt_materials:
  "filter_Boolean (map MATERIALS_prompt ms) = map MATERIALS_prompt ms"
  by (rule filter_Boolean_map_id) (rule MATERIALS_prompt_nonempty)

lemma buildImagePrompt_qualities:
  "filter_Boolean (map QUALITY_KEYWORDS_prompt qs) = map QUALITY_KEYWORDS_prompt qs"
  by (rule filter_Boolean_map_id) (rule QUALITY_KEYWORDS_prompt_nonempty)

text \<open>
  Claim C1. For every configuration, the full prompt of \<open>buildImagePrompt\<close> is the
  non-empty blocks among the nine of \<open>nine_blocks_spec\<close>, in that order, joined by
  a full stop and a space, with a final full stop: subject, environment (the custom
  environment when present, else the preset prompt), composition (shot type, camera angle
  and framing prompts joined by a comma and a space), lens, lighting, the selected
  material prompts joined by a comma and a space, style, the selected quality prompts
  joined likewise, and the additional details. The eight breakdown fields are the
  first eight blocks.
\<close>

theorem buildImagePrompt_nine_blocks:
  "fullPrompt (buildImagePrompt config) =
     join ''. '' (filter (\<lambda>b. b \<noteq> []) (nine_blocks_spec config)) @ ''.''
   \<and> breakdown (buildImagePrompt config) =
     \<lparr> bd_subject = nine_blocks_spec config ! 0,
       bd_setting = nine_blocks_spec config ! 1,
       bd_composition = nine_blocks_spec config ! 2,
       bd_camera = nine_blocks_spec config ! 3,
       bd_lighting = nine_blocks_spec config ! 4,
       bd_material = nine_blocks_spec config ! 5,
       bd_style = nine_blocks_spec config ! 6,
       bd_quality = nine_blocks_spec config ! 7 \<rparr>"
  unfolding buildImagePrompt_def Let_def buildImagePrompt_materials
    buildImagePrompt_qualities material_string_eq envPreset_eq
    filter_Boolean_opt_eq nine_blocks_spec_def
  by simp

text \<open>
  The theorem at \<open>fox_config\<close>: no material is selected and the custom environment
  is the empty string, so the preset environment is used and the material block is
  left out.
\<close>

theorem buildImagePrompt_nine_blocks_witness:
  "fullPrompt (buildImagePrompt fox_config) =
     ''a red fox. lush forest setting, trees, natural greenery, dappled sunlight. '' @
     ''wide shot, bird's eye view from directly above, '' @
     ''subject centered in frame, symmetrical composition. '' @
     ''24mm wide-angle lens, f/2.8. '' @
     ''golden hour warm sunlight, long shadows, orange rim light. '' @
     ''shot on Kodak Portra 400 film, natural film grain, warm color tones. '' @
     ''8K resolution, ultra high definition, tack sharp focus, crisp details. '' @
     ''autumn leaves.''
   \<and> bd_material (breakdown (buildImagePrompt fox_config)) = []"
  using buildImagePrompt_nine_blocks [of fox_config]
  by (simp add: nine_blocks_spec_def fox_config_def)

text \<open>
  Claim C4. The negative prompt of \<open>buildImagePrompt\<close> is the default negative
  prompts, then the human negative prompts when \<open>isHuman\<close> holds and nothing in
  their place when it does not, then the style negative prompts, then the prompts of
  \<open>negativeOptional\<close> in the order given, all joined by a comma and a space.
  The full prompt and the breakdown do not change when \<open>isHuman\<close> is set to any
  value.
\<close>

theorem buildImagePrompt_negativePrompt:
  "(isHuman config \<longrightarrow>
      negativePrompt (buildImagePrompt config) =
        join '', '' (IMAGE_NEGATIVE_PROMPTS_default @ IMAGE_NEGATIVE_PROMPTS_human @
                     IMAGE_NEGATIVE_PROMPTS_style @
                     map IMAGE_NEGATIVE_PROMPTS_optional_prompt (negativeOptional config)))
   \<and> (\<not> isHuman config \<longrightarrow>
      negativePrompt (buildImagePrompt config) =
        join '', '' (IMAGE_NEGATIVE_PROMPTS_default @
                     IMAGE_NEGATIVE_PROMPTS_style @
                     map IMAGE_NEGATIVE_PROMPTS_optional_prompt (negativeOptional config)))
   \<and> fullPrompt (buildImagePrompt (config\<lparr>isHuman := h\<rparr>)) =
       fullPrompt (buildImagePrompt config)
   \<and> breakdown (buildImagePrompt (config\<lparr>isHuman := h\<rparr>)) =
       breakdown (buildImagePrompt config)"
  by (simp add: buildImagePrompt_def Let_def)

text \<open>
  The theorem at \<open>portrait_config\<close> (a human subject) and at \<open>fox_config\<close>
  (not a human subject).
\<close>

theorem buildImagePrompt_negativePrompt_witness:
  "isHuman portrait_config \<and> \<not> isHuman fox_config
   \<and> negativePrompt (buildImagePrompt portrait_config) =
     ''blurry, low resolution, lowres, jpeg artifacts, compression artifacts, '' @
     ''watermark, text, logo, signature, '' @
     ''deformed face, distorted face, extra fingers, extra limbs, mutated hands, '' @
     ''bad anatomy, weird eyes, crossed eyes, plastic skin, uncanny valley, '' @
     ''cartoon, anime, illustration, painting, drawing, 3d render, cgi, '' @
     ''excessive grain, noisy, heavy vignette, dark corners''
   \<and> negativePrompt (buildImagePrompt fox_config) =
     ''blurry, low resolution, lowres, jpeg artifacts, compression artifacts, '' @
     ''watermark, text, logo, signature, '' @
     ''cartoon, anime, illustration, painting, drawing, 3d render, cgi, '' @
     ''HDR, overprocessed, over-sharpened''
   \<and> fullPrompt (buildImagePrompt (fox_config\<lparr>isHuman := True\<rparr>)) =
       fullPrompt (buildImagePrompt fox_config)"
  using buildImagePrompt_negativePrompt [of portrait_config True]
    buildImagePrompt_negativePrompt [of fox_config True]
  by (simp add: portrait_config_def fox_config_def IMAGE_NEGATIVE_PROMPTS_default_def
      IMAGE_NEGATIVE_PROMPTS_human_def IMAGE_NEGATIVE_PROMPTS_style_def)

section \<open>Properties of the video prompt builder\<close>

lemma STYLES_video_prompt_nonempty: "STYLES_video_prompt k \<noteq> []"
  by (cases k) simp_all

lemma QUALITY_KEYWORDS_video_prompt_nonempty: "QUALITY_KEYWORDS_video_prompt k \<noteq> []"
  by (cases k) simp_all

lemma buildVideoPrompt_styles:
  "filter_Boolean (map STYLES_video_prompt ks) = map STYLES_video_prompt ks"
  by (rule filter_Boolean_map_id) (rule STYLES_video_prompt_nonempty)

lemma buildVideoPrompt_qualities:
  "filter_Boolean (map QUALITY_KEYWORDS_video_prompt ks) =
     map QUALITY_KEYWORDS_video_prompt ks"
  by (rule filter_Boolean_map_id) (rule QUALITY_KEYWORDS_video_prompt_nonempty)

lemma str_of_js_or:
  "str_of (js_or v (Some d)) = (case v of None \<Rightarrow> d | Some s \<Rightarrow> if s = [] then d else s)"
  by (cases v) (simp_all add: str_of_def js_or_def truthy_def)

lemma buildVideoPrompt_subject:
  "(case v_character config of
      Some ch \<Rightarrow> buildSubjectFromCharacter toLowerCase ch
    | None \<Rightarrow> str_of (js_or (v_customSubject config) (Some ''A person'')))
   = video_subject_spec toLowerCase config"
  unfolding video_subject_spec_def str_of_js_or ..

text \<open>
  Claim C5. For every configuration, and whatever the lower-case mapping of the engine
  is, the full prompt of \<open>buildVideoPrompt\<close> is the
  non-empty blocks among the five of \<open>video_blocks_spec\<close>, in that order, joined by
  a full stop and a space, with a final full stop: the subject (built from the character
  when one is given, else the custom subject, else \<open>A person\<close>) followed by the
  trimmed action, the camera angle and camera movement prompts joined by a comma and a
  space, the environment (custom when present, else the preset prompt), the selected
  style prompts and the selected quality prompts, each joined by a comma and a space.
  The negative prompt is the default negatives followed by the selected optional
  negatives, joined by a comma and a space in that order.
\<close>

theorem buildVideoPrompt_blocks:
  "v_fullPrompt (buildVideoPrompt toLowerCase config) =
     join ''. '' (filter (\<lambda>b. b \<noteq> []) (video_blocks_spec toLowerCase config)) @ ''.''
   \<and> v_negativePrompt (buildVideoPrompt toLowerCase config) =
     join '', '' (NEGATIVE_PROMPTS_default @
                  map NEGATIVE_PROMPTS_optional_prompt (v_negativeOptional config))"
proof -
  have blocks:
    "filter_Boolean (video_blocks_spec toLowerCase config) =
       filter (\<lambda>b. b \<noteq> []) (video_blocks_spec toLowerCase config)"
    by (simp only: filter_Boolean_def)
  have "v_fullPrompt (buildVideoPrompt toLowerCase config) =
          join ''. '' (filter_Boolean (video_blocks_spec toLowerCase config)) @ ''.''"
    unfolding buildVideoPrompt_def Let_def buildVideoPrompt_styles
      buildVideoPrompt_qualities buildVideoPrompt_subject
    by (simp add: str_of_js_or video_blocks_spec_def)
  moreover have "v_negativePrompt (buildVideoPrompt toLowerCase config) =
     join '', '' (NEGATIVE_PROMPTS_default @
                  map NEGATIVE_PROMPTS_optional_prompt (v_negativeOptional config))"
    by (simp add: buildVideoPrompt_def Let_def)
  ultimately show ?thesis
    by (simp only: blocks simp_thms)
qed

text \<open>
  The theorem at \<open>mina_config\<close>, with a character, an action to trim and no quality
  keyword, and at \<open>nobody_config\<close>, with neither character nor custom subject. The
  strings of both have ASCII letters only, on which \<open>ascii_toLowerCase\<close> is the
  lower-case mapping.
\<close>

theorem buildVideoPrompt_blocks_witness:
  "v_fullPrompt (buildVideoPrompt ascii_toLowerCase mina_config) =
     ''Mina, a 29 year old calm Korean wearing a trench coat turns toward the window. '' @
     ''Close-up shot, slow subtle push-in. '' @
     ''warm cozy cafe interior, soft natural window light, wooden textures, '' @
     ''steam rising from drinks, intimate atmosphere. '' @
     ''cinematic, movie-like composition, professional color grading, '' @
     ''film noir style, dramatic shadows, moody atmosphere.''
   \<and> v_fullPrompt (buildVideoPrompt ascii_toLowerCase nobody_config) =
     ''A person waves. Wide establishing shot, static camera. a pier. '' @
     ''8K resolution, ultra high definition.''
   \<and> v_negativePrompt (buildVideoPrompt ascii_toLowerCase mina_config) =
     ''blurry, low quality, distorted face, deformed hands, text, watermark, logo, '' @
     ''static image, frame jump, teleportation, excessive camera shake, shaky cam''"
  using buildVideoPrompt_blocks [of ascii_toLowerCase mina_config]
    buildVideoPrompt_blocks [of ascii_toLowerCase nobody_config]
  by (simp add: video_blocks_spec_def video_subject_spec_def mina_config_def
      nobody_config_def mina_def buildSubjectFromCharacter_def Let_def truthy_def str_of_def
      ascii_toLowerCase_def lower_char_def trim_def trimStart_def trimEnd_def
      white_space_def drop_leading.simps NEGATIVE_PROMPTS_default_def)

section \<open>Properties of the polling loop\<close>

lemma poll_trace_first:
  "m < n \<Longrightarrow>
     poll_trace k p m n =
       [Wait pollInterval, PollPrediction k p (Suc m)] @ poll_trace k p (Suc m) n"
  by (simp add: poll_trace_def upt_conv_Cons)

lemma loop_spec_timeout:
  "maxPollingTime < head_time steps m \<Longrightarrow>
     loop_spec steps k p m m ([], LoopThrow (timeout_error (head_time steps m)))"
  by (auto simp: loop_spec_def poll_trace_def)

lemma loop_spec_stop:
  "head_time steps m \<le> maxPollingTime \<Longrightarrow> iteration_end steps (Suc m) = Some r \<Longrightarrow>
     loop_spec steps k p m (Suc m) ([Wait pollInterval, PollPrediction k p (Suc m)], r)"
  by (auto simp: loop_spec_def poll_trace_def)

lemma loop_spec_continue:
  assumes "head_time steps m \<le> maxPollingTime" and "iteration_end steps (Suc m) = None"
    and "loop_spec steps k p (Suc m) n (tr, r)"
  shows "loop_spec steps k p m n ([Wait pollInterval, PollPrediction k p (Suc m)] @ tr, r)"
proof -
  from assms(3) have n: "Suc m \<le> n" by (simp add: loop_spec_def)
  then have tr:
    "poll_trace k p m n =
       [Wait pollInterval, PollPrediction k p (Suc m)] @ poll_trace k p (Suc m) n"
    by (simp add: poll_trace_first)
  have mid: "iteration_end steps i = None \<and> head_time steps (i - 1) \<le> maxPollingTime"
    if "m < i" "i < n" for i
  proof (cases "i = Suc m")
    case True
    with assms(1,2) show ?thesis by simp
  next
    case False
    with that have "Suc m < i" by simp
    with assms(3) that show ?thesis by (simp add: loop_spec_def)
  qed
  have last: "iteration_end steps n = None \<and> head_time steps (n - 1) \<le> maxPollingTime"
    if "maxPollingTime < head_time steps n"
       "Suc m < n \<longrightarrow>
          iteration_end steps n = None \<and> head_time steps (n - 1) \<le> maxPollingTime"
  proof (cases "n = Suc m")
    case True
    with assms(1,2) show ?thesis by simp
  next
    case False
    with n that show ?thesis by simp
  qed
  from assms(3) n tr mid last show ?thesis
    unfolding loop_spec_def by auto
qed

lemma poll_loop_unfold_continue:
  assumes "\<not> maxPollingTime < now" and "iteration_end steps (Suc m) = None"
  shows "poll_loop steps k p m now tr =
           poll_loop steps k p (Suc m) (now + pollInterval + late (steps (Suc m)))
             (tr @ [Wait pollInterval, PollPrediction k p (Suc m)])"
  using assms
  by (subst poll_loop.simps)
     (auto simp: iteration_end_def split: try_result.splits option.splits)

lemma poll_loop_unfold_stop:
  assumes "\<not> maxPollingTime < now" and "now = head_time steps m"
    and "iteration_end steps (Suc m) = Some r"
  shows "poll_loop steps k p m now tr =
           (tr @ [Wait pollInterval, PollPrediction k p (Suc m)], r)"
  using assms
  by (subst poll_loop.simps)
     (auto simp: iteration_end_def split: try_result.splits option.splits)

text \<open>
  Every run of the loop is a run in the sense of \<open>loop_spec\<close>. The proof follows
  the recursion of the loop.
\<close>

lemma poll_loop_spec:
  "now = head_time steps m \<Longrightarrow>
   \<exists>n tr' r. poll_loop steps k p m now tr = (tr @ tr', r)
            \<and> loop_spec steps k p m n (tr', r)"
proof (induction steps k p m now tr rule: poll_loop.induct)
  case (1 steps k p m now tr)
  note IH = "1.IH" and now = "1.prems"
  show ?case
  proof (cases "maxPollingTime < now")
    case True
    then have "poll_loop steps k p m now tr = (tr @ [], LoopThrow (timeout_error now))"
      by (subst poll_loop.simps) simp
    with True now loop_spec_timeout[of steps m k p] show ?thesis
      by blast
  next
    case False
    with now have le: "head_time steps m \<le> maxPollingTime" by simp
    show ?thesis
    proof (cases "iteration_end steps (Suc m)")
      case (Some r)
      from poll_loop_unfold_stop[OF False now Some] loop_spec_stop[OF le Some]
      show ?thesis by blast
    next
      case None
      let ?now' = "now + pollInterval + late (steps (Suc m))"
      let ?tr' = "tr @ [Wait pollInterval, PollPrediction k p (Suc m)]"
      have now': "?now' = head_time steps (Suc m)" using now by simp
      have "\<exists>n tr' r. poll_loop steps k p (Suc m) ?now' ?tr' = (?tr' @ tr', r)
                \<and> loop_spec steps k p (Suc m) n (tr', r)"
      proof (cases "poll_try (outcome (steps (m + 1)))")
        case (TryReturn u)
        with None show ?thesis by (simp add: iteration_end_def)
      next
        case (TryThrows e)
        with None have "poll_catch e (m + 1) = None" by (simp add: iteration_end_def)
        from IH(1)[OF False TryThrows this] now' show ?thesis by simp
      next
        case TryDone
        from IH(2)[OF False TryDone] now' show ?thesis by simp
      qed
      then obtain n tr' r where
        run: "poll_loop steps k p (Suc m) ?now' ?tr' = (?tr' @ tr', r)"
        and spec: "loop_spec steps k p (Suc m) n (tr', r)" by blast
      from poll_loop_unfold_continue[OF False None, of k p tr] run
      have "poll_loop steps k p m now tr =
              (tr @ ([Wait pollInterval, PollPrediction k p (Suc m)] @ tr'), r)"
        by simp
      with loop_spec_continue[OF le None spec] show ?thesis by blast
    qed
  qed
qed

lemma head_time_lower: "n * pollInterval \<le> head_time steps n"
  by (induction n) simp_all

lemma loop_spec_bound:
  assumes "loop_spec steps k p 0 n run"
  shows "n \<le> 61"
proof (cases n)
  case 0
  then show ?thesis by simp
next
  case (Suc j)
  with assms have "head_time steps j \<le> maxPollingTime"
    by (auto simp: loop_spec_def)
  with head_time_lower[of j steps] have "j * pollInterval \<le> maxPollingTime" by simp
  then have "j \<le> 60" by (simp add: pollInterval_def maxPollingTime_def)
  with Suc show ?thesis by simp
qed

lemma loop_spec_heads:
  assumes "loop_spec steps k p 0 n run" and "i < n"
  shows "head_time steps i \<le> maxPollingTime"
proof (cases "Suc i < n")
  case True
  with assms(1) have "head_time steps (Suc i - 1) \<le> maxPollingTime"
    unfolding loop_spec_def by blast
  then show ?thesis by simp
next
  case False
  with assms(2) have "n - 1 = i" "0 < n" by simp_all
  with assms(1) show ?thesis by (auto simp: loop_spec_def)
qed

lemma video_failed_mentions_video:
  "mentions_video (JsError (msg_video_failed_prefix @ detail))"
  by (simp add: mentions_video_def msg_video_failed_prefix_def video_word_def)

text \<open>How an iteration can end the loop.\<close>

lemma iteration_end_Return:
  assumes "iteration_end steps n = Some (LoopReturn videoUrl t)"
  shows "t = head_time steps n
         \<and> (\<exists>r. outcome (steps n) = PollJson r \<and> pr_status r = Some ''success''
                \<and> pr_output r = Some videoUrl \<and> videoUrl \<noteq> [])"
  using assms
  by (auto simp: iteration_end_def poll_try_def poll_catch_def truthy_def str_of_def
           split: poll_outcome.splits if_splits option.splits)

lemma iteration_end_Throw:
  assumes "iteration_end steps n = Some (LoopThrow e)"
  shows "(\<exists>r. outcome (steps n) = PollJson r \<and> pr_status r = Some ''error''
             \<and> e = JsError (msg_video_failed_prefix @ poll_error_detail r))
         \<or> (outcome (steps n) = PollThrows e \<and> mentions_video e)
         \<or> (3 < n \<and> (\<exists>pe. outcome (steps n) = PollThrows pe \<and> \<not> mentions_video pe)
             \<and> e = JsError msg_repeated_failure)"
proof (cases "outcome (steps n)")
  case (PollThrows pe)
  with assms show ?thesis
    by (auto simp: iteration_end_def poll_try_def poll_catch_def split: if_splits)
next
  case (PollJson r)
  with assms have "pr_status r = Some ''error''"
    and "poll_catch (JsError (msg_video_failed_prefix @ poll_error_detail r)) n = Some e"
    by (auto simp: iteration_end_def poll_try_def poll_error_detail_def split: if_splits)
  with PollJson video_failed_mentions_video show ?thesis
    by (simp add: poll_catch_def)
qed

text \<open>
  Claim C2, as amended. The loop waits the fixed poll interval of 5000 ms before each
  poll and ends after at most 61 polls, each of them made in an iteration that starts
  within the maximal polling time of 300000 ms. It ends in one of four ways. It returns
  the output URL of a poll that reports the status \<open>success\<close> with a non-empty
  output; the time of that return is the head time of the iteration plus the poll
  interval and the lateness of the iteration, so it is bounded by the maximal polling
  time plus these two, not by the maximal polling time. It throws the timeout error, at
  the head of the first iteration that finds the maximal polling time exceeded. It
  throws a video generation error, for a poll that reports the status \<open>error\<close>
  or for a request whose own error mentions the word for video. It throws the repeated
  failure error, for a request that fails otherwise when more than 3 polls have been
  made.
\<close>

theorem polling_loop_outcomes:
  "\<exists>n. n \<le> 61
     \<and> fst (poll_loop steps k p 0 0 []) = poll_trace k p 0 n
     \<and> (\<forall>i<n. head_time steps i \<le> maxPollingTime)
     \<and> (case snd (poll_loop steps k p 0 0 []) of
          LoopReturn videoUrl t \<Rightarrow>
            0 < n \<and> t = head_time steps n
            \<and> t \<le> maxPollingTime + pollInterval + late (steps n)
            \<and> (\<exists>r. outcome (steps n) = PollJson r \<and> pr_status r = Some ''success''
                   \<and> pr_output r = Some videoUrl \<and> videoUrl \<noteq> [])
        | LoopThrow e \<Rightarrow>
            (maxPollingTime < head_time steps n \<and> e = timeout_error (head_time steps n))
          \<or> (0 < n \<and> (\<exists>r. outcome (steps n) = PollJson r \<and> pr_status r = Some ''error''
                   \<and> e = JsError (msg_video_failed_prefix @ poll_error_detail r)))
          \<or> (0 < n \<and> outcome (steps n) = PollThrows e \<and> mentions_video e)
          \<or> (3 < n \<and> (\<exists>pe. outcome (steps n) = PollThrows pe \<and> \<not> mentions_video pe)
              \<and> e = JsError msg_repeated_failure))"
proof -
  from poll_loop_spec[of 0 steps 0 k p "[]"] obtain n tr' r
    where run: "poll_loop steps k p 0 0 [] = (tr', r)"
      and spec: "loop_spec steps k p 0 n (tr', r)"
    by auto
  have bound: "n \<le> 61" using spec by (rule loop_spec_bound)
  have heads: "\<forall>i<n. head_time steps i \<le> maxPollingTime"
    using spec by (blast intro: loop_spec_heads)
  have trace: "tr' = poll_trace k p 0 n" using spec by (simp add: loop_spec_def)
  from spec consider
      (timeout) "maxPollingTime < head_time steps n"
                "r = LoopThrow (timeout_error (head_time steps n))"
    | (stop) "0 < n" "iteration_end steps n = Some r"
    by (auto simp: loop_spec_def)
  then have "case r of
          LoopReturn videoUrl t \<Rightarrow>
            0 < n \<and> t = head_time steps n
            \<and> t \<le> maxPollingTime + pollInterval + late (steps n)
            \<and> (\<exists>r. outcome (steps n) = PollJson r \<and> pr_status r = Some ''success''
                   \<and> pr_output r = Some videoUrl \<and> videoUrl \<noteq> [])
        | LoopThrow e \<Rightarrow>
            (maxPollingTime < head_time steps n \<and> e = timeout_error (head_time steps n))
          \<or> (0 < n \<and> (\<exists>r. outcome (steps n) = PollJson r \<and> pr_status r = Some ''error''
                   \<and> e = JsError (msg_video_failed_prefix @ poll_error_detail r)))
          \<or> (0 < n \<and> outcome (steps n) = PollThrows e \<and> mentions_video e)
          \<or> (3 < n \<and> (\<exists>pe. outcome (steps n) = PollThrows pe \<and> \<not> mentions_video pe)
              \<and> e = JsError msg_repeated_failure)"
  proof cases
    case timeout
    then show ?thesis by simp
  next
    case stop
    show ?thesis
    proof (cases r)
      case (LoopReturn videoUrl t)
      from stop(1) obtain j where j: "n = Suc j" by (cases n) auto
      with heads have "head_time steps j \<le> maxPollingTime" by simp
      with j have "head_time steps n \<le> maxPollingTime + pollInterval + late (steps n)"
        by simp
      with iteration_end_Return[of steps n videoUrl t] stop LoopReturn show ?thesis
        by simp
    next
      case (LoopThrow e)
      with iteration_end_Throw[of steps n e] stop show ?thesis
        by auto
    qed
  qed
  with run bound heads trace show ?thesis
    by (intro exI[of _ n]) simp
qed

text \<open>
  The theorem at the run \<open>quick_success\<close>, whose second poll finds the video: the
  only number of polls that fits is 2, and the loop returns after 10000 ms.
\<close>

theorem polling_loop_outcomes_witness:
  "poll_loop quick_success ''key'' ''pred-1'' 0 0 [] =
     ([Wait 5000, PollPrediction ''key'' ''pred-1'' 1,
       Wait 5000, PollPrediction ''key'' ''pred-1'' 2],
      LoopReturn ''https://cdn.example/v.mp4'' 10000)
   \<and> length (fst (poll_loop quick_success ''key'' ''pred-1'' 0 0 [])) \<le> 2 * 61"
proof -
  have run: "poll_loop quick_success ''key'' ''pred-1'' 0 0 [] =
     ([Wait 5000, PollPrediction ''key'' ''pred-1'' 1,
       Wait 5000, PollPrediction ''key'' ''pred-1'' 2],
      LoopReturn ''https://cdn.example/v.mp4'' 10000)"
    by (simp add: poll_loop.simps quick_success_def pending_def finished_def poll_try_def
        maxPollingTime_def pollInterval_def truthy_def str_of_def)
  from polling_loop_outcomes[of quick_success "''key''" "''pred-1''"]
  obtain n where "n \<le> 61"
    and "fst (poll_loop quick_success ''key'' ''pred-1'' 0 0 []) =
           poll_trace ''key'' ''pred-1'' 0 n"
    by blast
  then have "length (fst (poll_loop quick_success ''key'' ''pred-1'' 0 0 [])) \<le> 2 * 61"
    by (simp add: poll_trace_def length_concat comp_def sum_list_triv)
  with run show ?thesis by simp
qed

text \<open>
  Claim C2 as stated fails: with sixty polls that find the video in progress, none of
  them late, iteration 61 starts at 300000 ms, which does not exceed the maximum, and
  its poll returns the video at 305000 ms, after the bound of five minutes. And when
  every request fails, the loop ends at poll 4 with the repeated failure error, which
  is neither the timeout error nor the error of a poll that reports a failed
  generation.
\<close>

theorem polling_success_after_bound:
  "snd (poll_loop late_success ''key'' ''pred-1'' 0 0 []) =
     LoopReturn ''https://cdn.example/v.mp4'' 305000
   \<and> maxPollingTime < 305000
   \<and> poll_loop always_failing ''key'' ''pred-1'' 0 0 [] =
     ([Wait 5000, PollPrediction ''key'' ''pred-1'' 1,
       Wait 5000, PollPrediction ''key'' ''pred-1'' 2,
       Wait 5000, PollPrediction ''key'' ''pred-1'' 3,
       Wait 5000, PollPrediction ''key'' ''pred-1'' 4],
      LoopThrow (JsError msg_repeated_failure))"
  by (simp add: poll_loop.simps late_success_def always_failing_def failing_def
      pending_def finished_def poll_try_def poll_catch_def mentions_video_def
      video_word_def maxPollingTime_def pollInterval_def truthy_def str_of_def)

text \<open>
  Claim C9. In an iteration that starts within the maximal polling time and whose
  request fails with an error that does not mention the word for video, the loop throws
  the repeated failure error when the number of this poll, which is the number of all
  polls made so far, exceeds 3, and goes on to the next iteration when it does not.
  Earlier polls are not looked at: the counter counts polls, not failures.
\<close>

theorem failed_poll_aborts_after_three:
  assumes "now \<le> maxPollingTime"
    and "outcome (steps (pollCount + 1)) = PollThrows pollError"
    and "\<not> mentions_video pollError"
  shows "(3 < pollCount + 1 \<longrightarrow>
           poll_loop steps k p pollCount now tr =
             (tr @ [Wait pollInterval, PollPrediction k p (pollCount + 1)],
              LoopThrow (JsError msg_repeated_failure)))
       \<and> (pollCount + 1 \<le> 3 \<longrightarrow>
           poll_loop steps k p pollCount now tr =
             poll_loop steps k p (pollCount + 1)
               (now + pollInterval + late (steps (pollCount + 1)))
               (tr @ [Wait pollInterval, PollPrediction k p (pollCount + 1)]))"
  using assms
  by (subst (1 2) poll_loop.simps) (simp add: poll_try_def poll_catch_def)

text \<open>
  The theorem at the run \<open>fail_at_four\<close>: three polls succeed, the fourth request
  fails and ends the run. In the run \<open>three_failures\<close> the first three requests
  fail and the run goes on to return the video at poll 4.
\<close>

theorem failed_poll_aborts_after_three_witness:
  "poll_loop fail_at_four ''key'' ''pred-1'' 3 15000 [] =
     ([Wait 5000, PollPrediction ''key'' ''pred-1'' 4],
      LoopThrow (JsError msg_repeated_failure))
   \<and> snd (poll_loop fail_at_four ''key'' ''pred-1'' 0 0 []) =
      LoopThrow (JsError msg_repeated_failure)
   \<and> snd (poll_loop three_failures ''key'' ''pred-1'' 0 0 []) =
      LoopReturn ''https://cdn.example/v.mp4'' 20000"
proof -
  have "15000 \<le> maxPollingTime" by (simp add: maxPollingTime_def)
  moreover have "outcome (fail_at_four (3 + 1)) = PollThrows (JsError ''fetch failed'')"
    by (simp add: fail_at_four_def failing_def)
  moreover have "\<not> mentions_video (JsError ''fetch failed'')"
    by (simp add: mentions_video_def video_word_def)
  ultimately have
    "poll_loop fail_at_four ''key'' ''pred-1'' 3 15000 [] =
       ([Wait 5000, PollPrediction ''key'' ''pred-1'' 4],
        LoopThrow (JsError msg_repeated_failure))"
    using failed_poll_aborts_after_three
            [of 15000 fail_at_four 3 "JsError ''fetch failed''" "''key''" "''pred-1''" "[]"]
    by (simp add: pollInterval_def)
  moreover have "snd (poll_loop fail_at_four ''key'' ''pred-1'' 0 0 []) =
      LoopThrow (JsError msg_repeated_failure)"
    by (simp add: poll_loop.simps fail_at_four_def failing_def pending_def poll_try_def
        poll_catch_def mentions_video_def video_word_def maxPollingTime_def
        pollInterval_def truthy_def str_of_def)
  moreover have "snd (poll_loop three_failures ''key'' ''pred-1'' 0 0 []) =
      LoopReturn ''https://cdn.example/v.mp4'' 20000"
    by (simp add: poll_loop.simps three_failures_def failing_def finished_def poll_try_def
        poll_catch_def mentions_video_def video_word_def maxPollingTime_def
        pollInterval_def truthy_def str_of_def)
  ultimately show ?thesis by simp
qed

section \<open>Properties of the handler\<close>

lemma poll_trace_events:
  "ev \<in> set (poll_trace k p m n) \<Longrightarrow>
     ev = Wait pollInterval \<or> (\<exists>i. ev = PollPrediction k p i)"
  by (auto simp: poll_trace_def split: if_splits)

lemma loop_spec_polls:
  assumes "loop_spec steps k p 0 n run"
  shows "0 < n"
proof (rule ccontr)
  assume "\<not> 0 < n"
  then have "n = 0" by simp
  with assms show False by (simp add: loop_spec_def)
qed

lemma loop_spec_Return:
  assumes "loop_spec steps k p 0 n (tr, LoopReturn videoUrl t)"
  shows "poll_try (outcome (steps n)) = TryReturn videoUrl"
proof -
  from assms have "iteration_end steps n = Some (LoopReturn videoUrl t)"
    by (auto simp: loop_spec_def)
  then show ?thesis
    by (auto simp: iteration_end_def split: try_result.splits)
qed

text \<open>
  The polling part of the handler makes the polls 1 to \<open>n\<close> for some positive
  \<open>n\<close>, and answers 200 only with the output that poll \<open>n\<close> returns.
\<close>

lemma handler_polling_run:
  "\<exists>n. 0 < n
     \<and> fst (handler_polling w img d k p tr) = tr @ poll_trace k p 0 n
     \<and> (case snd (handler_polling w img d k p tr) of
          Inl e \<Rightarrow> True
        | Inr resp \<Rightarrow>
            \<exists>videoUrl. poll_try (outcome (pollPrediction w k p n)) = TryReturn videoUrl
              \<and> resp = \<lparr> res_status = 200,
                         res_body = VideoResult videoUrl
                           (''data:'' @ img_mimeType img @ '';base64,'' @ img_data img) d \<rparr>)"
proof -
  from poll_loop_spec[of 0 "pollPrediction w k p" 0 k p tr] obtain n tr' r
    where run: "poll_loop (pollPrediction w k p) k p 0 0 tr = (tr @ tr', r)"
      and spec: "loop_spec (pollPrediction w k p) k p 0 n (tr', r)"
    by auto
  from spec have n: "0 < n" by (rule loop_spec_polls)
  from spec have tr': "tr' = poll_trace k p 0 n" by (simp add: loop_spec_def)
  show ?thesis
  proof (cases r)
    case (LoopReturn videoUrl t)
    with spec have "poll_try (outcome (pollPrediction w k p n)) = TryReturn videoUrl"
      by (auto dest: loop_spec_Return)
    with run n tr' LoopReturn show ?thesis
      by (intro exI[of _ n]) (simp add: handler_polling_def)
  next
    case (LoopThrow e)
    with run n tr' show ?thesis
      by (intro exI[of _ n]) (simp add: handler_polling_def)
  qed
qed

lemma outer_catch_status:
  "res_status (outer_catch e) = 403 \<or> res_status (outer_catch e) = 429
   \<or> res_status (outer_catch e) = 500"
  by (cases e) (simp_all add: outer_catch_def)

lemma create_catch_status: "create_catch e = Inr resp \<Longrightarrow> res_status resp = 403"
  by (auto simp: create_catch_def split: if_splits)

lemma String_of_nat_6: "String_of_nat 6 = ''6''"
  by (simp add: String_of_nat.simps digit_char_def)

lemma String_of_nat_10: "String_of_nat 10 = ''10''"
  by (simp add: String_of_nat.simps digit_char_def)

text \<open>
  The calls of a request that reaches the creation of the prediction: the user lookup,
  the building of the prompt, the upload, the creation.
\<close>

lemma handler_try_cases:
  fixes w reqBody uid
  defines "d \<equiv> requested_duration reqBody"
  shows
    "(\<exists>tr resp. handler_try w reqBody uid = (tr, Inr resp) \<and> res_status resp \<noteq> 200
        \<and> (\<forall>k p i. PollPrediction k p i \<notin> set tr)
        \<and> (\<forall>a b c s. CreatePrediction a b c s \<in> set tr \<longrightarrow> s = String_of_nat (hailuo_duration d)))
   \<or> (\<exists>tr e. handler_try w reqBody uid = (tr, Inl e)
        \<and> (\<forall>k p i. PollPrediction k p i \<notin> set tr)
        \<and> (\<forall>a b c s. CreatePrediction a b c s \<in> set tr \<longrightarrow> s = String_of_nat (hailuo_duration d)))
   \<or> (\<exists>img user imageUrl predictionId.
        sourceImage reqBody = Some img \<and> img_data img \<noteq> []
        \<and> truthy (motionPrompt reqBody)
        \<and> findUserById w uid = Inr user
        \<and> truthy (selectHailuoApiKey user (HAILUO_API_KEY w))
        \<and> uploadImageToTempUrl w (img_data img) (img_mimeType img) = Inr imageUrl
        \<and> create_try (createPrediction w
             (str_of (selectHailuoApiKey user (HAILUO_API_KEY w)))
             (enhancedPrompt (sanitizePrompt w (str_of (motionPrompt reqBody)) 1000))
             imageUrl (String_of_nat (hailuo_duration d))) = Inr predictionId
        \<and> handler_try w reqBody uid =
            handler_polling w img d
              (str_of (selectHailuoApiKey user (HAILUO_API_KEY w))) predictionId
              [DbFindUser uid,
               BuildPrompt (enhancedPrompt
                              (sanitizePrompt w (str_of (motionPrompt reqBody)) 1000)),
               UploadImage (img_data img) (img_mimeType img),
               CreatePrediction (str_of (selectHailuoApiKey user (HAILUO_API_KEY w)))
                 (enhancedPrompt (sanitizePrompt w (str_of (motionPrompt reqBody)) 1000))
                 imageUrl (String_of_nat (hailuo_duration d))])"
  unfolding d_def handler_try_def Let_def
  by (auto split: option.splits sum.splits dest: create_catch_status)

text \<open>
  Claim C7. Take a request whose handling makes some poll, or a POST request that is
  answered with 200. Then the request is a POST request, the image upload succeeded
  and the creation of the prediction succeeded, and the calls of the handler are, in
  this order: the user lookup, the building of the enhanced prompt from the motion
  prompt of the request, the upload of the source image, the request that creates the
  prediction, with that prompt and the URL of the uploaded image, and then the polls 1
  to \<open>n\<close> for a positive \<open>n\<close>, each after its wait. If the answer is 200, poll
  \<open>n\<close> is one that reports completion, and the answer carries its output.
\<close>

theorem handler_pipeline_order:
  assumes "(req_method req = ''POST'' \<and> res_status (snd (handler w req)) = 200)
           \<or> PollPrediction k p i \<in> set (fst (handler w req))"
  shows "\<exists>uid user img motion imageUrl apiKey prompt sent predictionId n.
           req_method req = ''POST''
         \<and> userId (req_auth req) = Some uid
         \<and> sourceImage (req_body req) = Some img
         \<and> motionPrompt (req_body req) = Some motion
         \<and> findUserById w uid = Inr user
         \<and> apiKey = str_of (selectHailuoApiKey user (HAILUO_API_KEY w))
         \<and> prompt = enhancedPrompt (sanitizePrompt w motion 1000)
         \<and> uploadImageToTempUrl w (img_data img) (img_mimeType img) = Inr imageUrl
         \<and> create_try (createPrediction w apiKey prompt imageUrl sent) = Inr predictionId
         \<and> 0 < n
         \<and> fst (handler w req) =
             [DbFindUser uid, BuildPrompt prompt,
              UploadImage (img_data img) (img_mimeType img),
              CreatePrediction apiKey prompt imageUrl sent]
             @ poll_trace apiKey predictionId 0 n
         \<and> (res_status (snd (handler w req)) = 200 \<longrightarrow>
              (\<exists>videoUrl thumb duration.
                 poll_try (outcome (pollPrediction w apiKey predictionId n)) =
                   TryReturn videoUrl
               \<and> res_body (snd (handler w req)) = VideoResult videoUrl thumb duration))"
proof -
  let ?run = "handler_try w (req_body req) (str_of (userId (req_auth req)))"
  have post: "req_method req = ''POST''"
  proof (rule ccontr)
    assume "req_method req \<noteq> ''POST''"
    then have "fst (handler w req) = []"
      by (simp add: handler_def)
    with assms \<open>req_method req \<noteq> ''POST''\<close> show False by simp
  qed
  with assms have goal: "res_status (snd (handler w req)) = 200
         \<or> PollPrediction k p i \<in> set (fst (handler w req))"
    by simp
  have auth: "authenticated (req_auth req) \<and> truthy (userId (req_auth req))"
  proof (rule ccontr)
    assume "\<not> ?thesis"
    with post have "handler w req =
      ([], \<lparr> res_status = 401,
             res_body = AuthErrorBody
               (str_of (js_or (auth_error (req_auth req)) (Some msg_login_required))) \<rparr>)"
      by (auto simp: handler_def)
    with goal show False by simp
  qed
  then obtain uid where uid: "userId (req_auth req) = Some uid"
    by (cases "userId (req_auth req)") (auto simp: truthy_def)
  have h: "handler w req =
             (case ?run of (tr, Inr resp) \<Rightarrow> (tr, resp) | (tr, Inl e) \<Rightarrow> (tr, outer_catch e))"
    using post auth by (simp add: handler_def)
  from handler_try_cases[of w "req_body req" "str_of (userId (req_auth req))"]
  consider
      (resp) tr resp where "?run = (tr, Inr resp)" "res_status resp \<noteq> 200"
        "\<forall>k p i. PollPrediction k p i \<notin> set tr"
    | (thrown) tr e where "?run = (tr, Inl e)" "\<forall>k p i. PollPrediction k p i \<notin> set tr"
    | (polling) img user imageUrl predictionId where
        "sourceImage (req_body req) = Some img"
        "truthy (motionPrompt (req_body req))"
        "findUserById w (str_of (userId (req_auth req))) = Inr user"
        "uploadImageToTempUrl w (img_data img) (img_mimeType img) = Inr imageUrl"
        "create_try (createPrediction w
             (str_of (selectHailuoApiKey user (HAILUO_API_KEY w)))
             (enhancedPrompt
                (sanitizePrompt w (str_of (motionPrompt (req_body req))) 1000))
             imageUrl
             (String_of_nat (hailuo_duration (requested_duration (req_body req)))))
           = Inr predictionId"
        "?run =
            handler_polling w img (requested_duration (req_body req))
              (str_of (selectHailuoApiKey user (HAILUO_API_KEY w))) predictionId
              [DbFindUser (str_of (userId (req_auth req))),
               BuildPrompt (enhancedPrompt
                  (sanitizePrompt w (str_of (motionPrompt (req_body req))) 1000)),
               UploadImage (img_data img) (img_mimeType img),
               CreatePrediction (str_of (selectHailuoApiKey user (HAILUO_API_KEY w)))
                 (enhancedPrompt
                    (sanitizePrompt w (str_of (motionPrompt (req_body req))) 1000))
                 imageUrl
                 (String_of_nat (hailuo_duration (requested_duration (req_body req))))]"
    by blast
  then show ?thesis
  proof cases
    case resp
    with h goal show ?thesis by auto
  next
    case thrown
    with h goal outer_catch_status[of e] show ?thesis by auto
  next
    case polling
    let ?k = "str_of (selectHailuoApiKey user (HAILUO_API_KEY w))"
    let ?prompt = "enhancedPrompt
                     (sanitizePrompt w (str_of (motionPrompt (req_body req))) 1000)"
    let ?sent = "String_of_nat (hailuo_duration (requested_duration (req_body req)))"
    let ?tr = "[DbFindUser (str_of (userId (req_auth req))), BuildPrompt ?prompt,
                UploadImage (img_data img) (img_mimeType img),
                CreatePrediction ?k ?prompt imageUrl ?sent]"
    from polling(2) obtain motion where motion: "motionPrompt (req_body req) = Some motion"
      by (cases "motionPrompt (req_body req)") (auto simp: truthy_def)
    from handler_polling_run[of w img "requested_duration (req_body req)" ?k predictionId ?tr]
    obtain n where n: "0 < n"
      and tr: "fst ?run = ?tr @ poll_trace ?k predictionId 0 n"
      and res: "case snd ?run of Inl e \<Rightarrow> True
                | Inr resp \<Rightarrow>
                    \<exists>videoUrl. poll_try (outcome (pollPrediction w ?k predictionId n)) =
                                 TryReturn videoUrl
                      \<and> resp = \<lparr> res_status = 200,
                           res_body = VideoResult videoUrl
                             (''data:'' @ img_mimeType img @ '';base64,'' @ img_data img)
                             (requested_duration (req_body req)) \<rparr>"
      unfolding polling(6) by blast
    have fst_h: "fst (handler w req) = fst ?run"
      unfolding h by (cases ?run) (auto split: sum.splits)
    have ok: "\<exists>videoUrl thumb duration.
                 poll_try (outcome (pollPrediction w ?k predictionId n)) = TryReturn videoUrl
               \<and> res_body (snd (handler w req)) = VideoResult videoUrl thumb duration"
      if "res_status (snd (handler w req)) = 200"
    proof (cases "snd ?run")
      case (Inl e)
      then have "snd (handler w req) = outer_catch e"
        unfolding h by (cases ?run) auto
      with that outer_catch_status[of e] show ?thesis by auto
    next
      case (Inr resp)
      then have "snd (handler w req) = resp"
        unfolding h by (cases ?run) auto
      with res Inr show ?thesis by auto
    qed
    from post uid motion polling(1,3,4,5) n tr fst_h ok show ?thesis
      by (simp add: str_of_def) blast
  qed
qed

text \<open>The handler run on \<open>demo_request\<close> in \<open>demo_world\<close>.\<close>

lemma demo_run:
  "handler demo_world demo_request =
     ([DbFindUser ''u1'', BuildPrompt (enhancedPrompt ''slow zoom''),
       UploadImage ''AAAA'' ''image/png'',
       CreatePrediction ''user-key'' (enhancedPrompt ''slow zoom'')
         ''https://tmpfiles.org/dl/1/video_image.png'' ''10'',
       Wait 5000, PollPrediction ''user-key'' ''pred-1'' 1,
       Wait 5000, PollPrediction ''user-key'' ''pred-1'' 2],
      \<lparr> res_status = 200,
        res_body = VideoResult ''https://cdn.example/v.mp4''
                     ''data:image/png;base64,AAAA'' 8 \<rparr>)"
  by (simp add: handler_def handler_try_def handler_polling_def demo_world_def
      demo_request_def demo_user_def requested_duration_def selectHailuoApiKey_def
      js_or_def truthy_def str_of_def create_try_def hailuo_duration_def String_of_nat_10
      poll_loop.simps quick_success_def pending_def finished_def poll_try_def
      maxPollingTime_def pollInterval_def Let_def)

text \<open>
  The theorem at \<open>demo_request\<close> in \<open>demo_world\<close>: a POST request answered with 200
  after the lookup, the prompt, the upload, the creation and two polls.
\<close>

theorem handler_pipeline_order_witness:
  "req_method demo_request = ''POST''
   \<and> res_status (snd (handler demo_world demo_request)) = 200
   \<and> take 4 (fst (handler demo_world demo_request)) =
       [DbFindUser ''u1'', BuildPrompt (enhancedPrompt ''slow zoom''),
        UploadImage ''AAAA'' ''image/png'',
        CreatePrediction ''user-key'' (enhancedPrompt ''slow zoom'')
          ''https://tmpfiles.org/dl/1/video_image.png'' ''10'']
   \<and> 6 \<le> length (fst (handler demo_world demo_request))"
proof -
  have post: "req_method demo_request = ''POST''"
    by (simp add: demo_request_def)
  have ok: "res_status (snd (handler demo_world demo_request)) = 200"
    by (simp add: demo_run)
  from handler_pipeline_order[of demo_request demo_world] post ok
  obtain ev1 ev2 ev3 ev4 apiKey predictionId n where "0 < n"
    and "fst (handler demo_world demo_request) =
           [ev1, ev2, ev3, ev4] @ poll_trace apiKey predictionId 0 n"
    by blast
  then have "6 \<le> length (fst (handler demo_world demo_request))"
    by (simp add: poll_trace_def length_concat comp_def sum_list_triv)
  with post ok show ?thesis by (simp add: demo_run)
qed

text \<open>
  Claim C8. The duration that the handler sends to the video API is the string
  \<open>6\<close> or the string \<open>10\<close>: \<open>6\<close> exactly when the requested duration, which is 5
  when the request has none, is at most 6. The duration in a 200 response is the
  requested duration. So when the requested duration is neither 6 nor 10, the number
  reported differs from the number asked of the video API.
\<close>

theorem handler_duration:
  "requested_duration (req_body req) =
     (case durationSeconds (req_body req) of None \<Rightarrow> 5 | Some d \<Rightarrow> d)
   \<and> (CreatePrediction apiKey prompt imageUrl sent \<in> set (fst (handler w req)) \<longrightarrow>
        sent = String_of_nat (hailuo_duration (requested_duration (req_body req)))
        \<and> (sent = ''6'' \<or> sent = ''10'')
        \<and> (sent = ''6'' \<longleftrightarrow> requested_duration (req_body req) \<le> 6))
   \<and> (snd (handler w req) =
         \<lparr> res_status = 200, res_body = VideoResult videoUrl thumb reported \<rparr> \<longrightarrow>
        reported = requested_duration (req_body req))
   \<and> (requested_duration (req_body req) \<noteq> 6 \<and> requested_duration (req_body req) \<noteq> 10 \<longrightarrow>
        of_nat (hailuo_duration (requested_duration (req_body req))) \<noteq>
          requested_duration (req_body req))"
proof -
  let ?d = "requested_duration (req_body req)"
  let ?run = "handler_try w (req_body req) (str_of (userId (req_auth req)))"
  have sent_cases:
    "String_of_nat (hailuo_duration ?d) = ''6'' \<or> String_of_nat (hailuo_duration ?d) = ''10''"
    "String_of_nat (hailuo_duration ?d) = ''6'' \<longleftrightarrow> ?d \<le> 6"
    by (simp_all add: hailuo_duration_def String_of_nat_6 String_of_nat_10)
  have differs: "?d \<noteq> 6 \<and> ?d \<noteq> 10 \<longrightarrow> of_nat (hailuo_duration ?d) \<noteq> ?d"
    by (simp add: hailuo_duration_def)
  have sent: "sent = String_of_nat (hailuo_duration ?d)"
    if ev: "CreatePrediction apiKey prompt imageUrl sent \<in> set (fst (handler w req))"
  proof -
    have h: "handler w req =
               (case ?run of (tr, Inr resp) \<Rightarrow> (tr, resp)
                | (tr, Inl e) \<Rightarrow> (tr, outer_catch e))"
      using ev by (auto simp: handler_def split: if_splits)
    then have tr: "fst (handler w req) = fst ?run"
      by (cases ?run) (auto split: sum.splits)
    from handler_try_cases[of w "req_body req" "str_of (userId (req_auth req))"]
    consider
        (early) "\<forall>a b c s. CreatePrediction a b c s \<in> set (fst ?run) \<longrightarrow>
                   s = String_of_nat (hailuo_duration ?d)"
      | (polling) img k p e1 e2 e3 a b c where
          "?run = handler_polling w img ?d k p
                    [e1, e2, e3, CreatePrediction a b c (String_of_nat (hailuo_duration ?d))]"
          "e1 = DbFindUser (str_of (userId (req_auth req)))"
          "e2 = BuildPrompt b" "e3 = UploadImage (img_data img) (img_mimeType img)"
      by (elim disjE exE conjE) auto
    then have "\<forall>a b c s. CreatePrediction a b c s \<in> set (fst ?run) \<longrightarrow>
            s = String_of_nat (hailuo_duration ?d)"
    proof cases
      case early
      then show ?thesis .
    next
      case polling
      from handler_polling_run[of w img ?d k p
             "[e1, e2, e3, CreatePrediction a b c (String_of_nat (hailuo_duration ?d))]"]
      obtain n where
        "fst ?run = [e1, e2, e3, CreatePrediction a b c (String_of_nat (hailuo_duration ?d))]
                      @ poll_trace k p 0 n"
        unfolding polling(1) by blast
      with polling(2-4) show ?thesis
        by (auto dest: poll_trace_events)
    qed
    with ev tr show ?thesis by auto
  qed
  have reported: "reported = ?d"
    if res: "snd (handler w req) =
               \<lparr> res_status = 200, res_body = VideoResult videoUrl thumb reported \<rparr>"
  proof -
    have h: "handler w req =
               (case ?run of (tr, Inr resp) \<Rightarrow> (tr, resp)
                | (tr, Inl e) \<Rightarrow> (tr, outer_catch e))"
      using res by (auto simp: handler_def split: if_splits)
    show ?thesis
    proof (cases "snd ?run")
      case (Inl e)
      then have "snd (handler w req) = outer_catch e"
        unfolding h by (cases ?run) auto
      with res outer_catch_status[of e] show ?thesis by auto
    next
      case (Inr resp)
      then have resp: "snd (handler w req) = resp"
        unfolding h by (cases ?run) auto
      from handler_try_cases[of w "req_body req" "str_of (userId (req_auth req))"]
      consider (early) "res_status resp \<noteq> 200"
        | (polling) img k p tr where "?run = handler_polling w img ?d k p tr"
        using Inr by (elim disjE exE conjE) auto
      then show ?thesis
      proof cases
        case early
        with res resp show ?thesis by auto
      next
        case polling
        with handler_polling_run[of w img ?d k p tr] Inr res resp show ?thesis
          by auto
      qed
    qed
  qed
  from sent sent_cases differs reported show ?thesis
    by (simp add: requested_duration_def) metis
qed

text \<open>
  The theorem at \<open>demo_request\<close>, which asks for 8 seconds: the video API is asked
  for \<open>10\<close> and the response reports 8.
\<close>

theorem handler_duration_witness:
  "CreatePrediction ''user-key'' (enhancedPrompt ''slow zoom'')
     ''https://tmpfiles.org/dl/1/video_image.png'' ''10''
     \<in> set (fst (handler demo_world demo_request))
   \<and> snd (handler demo_world demo_request) =
       \<lparr> res_status = 200,
         res_body = VideoResult ''https://cdn.example/v.mp4''
                      ''data:image/png;base64,AAAA'' 8 \<rparr>
   \<and> requested_duration (req_body demo_request) = 8
   \<and> String_of_nat (hailuo_duration (requested_duration (req_body demo_request))) = ''10''
   \<and> (of_nat (hailuo_duration (requested_duration (req_body demo_request))) :: rat) \<noteq> 8"
  using handler_duration
          [of demo_request "''user-key''" "enhancedPrompt ''slow zoom''"
              "''https://tmpfiles.org/dl/1/video_image.png''" "''10''" demo_world
              "''https://cdn.example/v.mp4''" "''data:image/png;base64,AAAA''" 8]
  by (simp add: demo_run)
     (simp add: demo_request_def requested_duration_def hailuo_duration_def String_of_nat_10)

text \<open>
  Claim C10 as stated fails: not every endpoint that calls an external API with a key
  selects that key. The image prompt update handler answers a POST request that names
  no user with 200 after one call of the Gemini API through the client of the whole
  application. It looks no user up, so neither a stored key nor the role of the user
  can decide the key, and none of its answers is a key-missing error.
\<close>

theorem update_image_prompt_uses_global_client:
  "update_image_prompt_handler demo_gemini update_request =
     ([GlobalGenerateContent ''gemini-text''
         (update_prompt demo_gemini (upd_reqBody update_request) ''photo of'')],
      \<lparr> upd_status = 200, upd_body = UpdImagePrompt (Some ''A dog on a beach'') \<rparr>)"
  by (simp add: update_image_prompt_handler_def demo_gemini_def update_request_def
      update_stylePromptText_def update_imageStyle_def js_or_def truthy_def str_of_def
      trim_def trimStart_def trimEnd_def white_space_def drop_leading.simps)

text \<open>
  Claim C10, as amended. The precedence holds where a key is selected, which is in the
  video handler, the food video handler and \<open>getOpenAIKeyForUser\<close>. The key of
  the Hailuo API is the environment variable for an administrator, whatever key the
  administrator has stored, and for any other user the stored key when there is one,
  else the environment variable. The key of the OpenAI API is, for an administrator,
  the environment variable when there is one, else the stored key, and for any other
  user the stored key when there is one, else the environment variable. When neither
  source has a key, the selection gives none. When the selection gives no key, the
  video handler and the food video handler answer 400 with their key-missing code,
  having made no call but the user lookup, and \<open>getOpenAIKeyForUser\<close> throws
  its key-missing error, so that no request is sent to OpenAI. The image prompt update
  handler selects no key: for a POST request with a description that is not blank and
  a style text in the table, its one call goes to the client of the whole application,
  with the text model and the prompt built from the request, and it answers 200 or
  500.
\<close>

theorem api_key_precedence:
  "(isAdmin u \<longrightarrow> selectHailuoApiKey (Some u) envKey = envKey)
   \<and> (\<not> isAdmin u \<longrightarrow>
        selectHailuoApiKey (Some u) envKey =
          (if truthy (hailuoApiKey u) then hailuoApiKey u else envKey))
   \<and> (\<not> truthy envKey \<and> \<not> truthy (hailuoApiKey u) \<longrightarrow>
        \<not> truthy (selectHailuoApiKey (Some u) envKey))
   \<and> (req_method req = ''POST'' \<and> authenticated (req_auth req)
        \<and> userId (req_auth req) = Some uid \<and> uid \<noteq> []
        \<and> sourceImage (req_body req) = Some img \<and> img_data img \<noteq> []
        \<and> truthy (motionPrompt (req_body req))
        \<and> findUserById w uid = Inr user
        \<and> \<not> truthy (selectHailuoApiKey user (HAILUO_API_KEY w)) \<longrightarrow>
        handler w req =
          ([DbFindUser uid],
           \<lparr> res_status = 400,
             res_body = ErrorBody msg_key_missing (Some ''API_KEY_MISSING'') \<rparr>))
   \<and> (foodImage foodReq = Some img \<and> img_data img \<noteq> [] \<and> img_mimeType img \<noteq> []
        \<and> truthy (englishPrompt foodReq)
        \<and> findUserById w uid = Inr user
        \<and> \<not> truthy (selectHailuoApiKey user (HAILUO_API_KEY w)) \<longrightarrow>
        food_handler_start w foodReq uid =
          ([DbFindUser uid],
           FoodRespond
             \<lparr> res_status = 400,
               res_body = ErrorBody msg_key_missing (Some ''HAILUO_API_KEY_MISSING'') \<rparr>))
   \<and> (isAdmin u \<longrightarrow>
        getOpenAIKeyForUser (Some u) envKey =
          (if truthy envKey then Inr (str_of envKey)
           else if truthy (openaiApiKey u) then Inr (str_of (openaiApiKey u))
           else Inl (JsError msg_openai_key_missing_admin)))
   \<and> (\<not> isAdmin u \<longrightarrow>
        getOpenAIKeyForUser (Some u) envKey =
          (if truthy (openaiApiKey u) then Inr (str_of (openaiApiKey u))
           else if truthy envKey then Inr (str_of envKey)
           else Inl (JsError msg_openai_key_missing)))
   \<and> (getOpenAIKeyForUser someUser envKey = Inl e \<longrightarrow>
        openai_text_request someUser envKey textModel = ([], Inl e))
   \<and> (upd_method updReq = ''POST''
        \<and> truthy (visualDescription (upd_reqBody updReq))
        \<and> trim (str_of (visualDescription (upd_reqBody updReq))) \<noteq> []
        \<and> update_stylePromptText g (upd_reqBody updReq) = Some styleText \<longrightarrow>
        fst (update_image_prompt_handler g updReq) =
          [GlobalGenerateContent (MODELS_TEXT g)
             (update_prompt g (upd_reqBody updReq) styleText)]
        \<and> (upd_status (snd (update_image_prompt_handler g updReq)) = 200
             \<or> upd_status (snd (update_image_prompt_handler g updReq)) = 500))"
proof -
  have update:
    "fst (update_image_prompt_handler g updReq) =
       [GlobalGenerateContent (MODELS_TEXT g)
          (update_prompt g (upd_reqBody updReq) styleText)]
     \<and> (upd_status (snd (update_image_prompt_handler g updReq)) = 200
          \<or> upd_status (snd (update_image_prompt_handler g updReq)) = 500)"
    if "upd_method updReq = ''POST''"
      and "truthy (visualDescription (upd_reqBody updReq))"
      and "trim (str_of (visualDescription (upd_reqBody updReq))) \<noteq> []"
      and "update_stylePromptText g (upd_reqBody updReq) = Some styleText"
    using that
    by (simp add: update_image_prompt_handler_def update_catch_def Let_def
        split: generate_outcome.splits)
  have keys:
    "(isAdmin u \<longrightarrow> selectHailuoApiKey (Some u) envKey = envKey)
     \<and> (\<not> isAdmin u \<longrightarrow>
          selectHailuoApiKey (Some u) envKey =
            (if truthy (hailuoApiKey u) then hailuoApiKey u else envKey))
     \<and> (\<not> truthy envKey \<and> \<not> truthy (hailuoApiKey u) \<longrightarrow>
          \<not> truthy (selectHailuoApiKey (Some u) envKey))
     \<and> (req_method req = ''POST'' \<and> authenticated (req_auth req)
          \<and> userId (req_auth req) = Some uid \<and> uid \<noteq> []
          \<and> sourceImage (req_body req) = Some img \<and> img_data img \<noteq> []
          \<and> truthy (motionPrompt (req_body req))
          \<and> findUserById w uid = Inr user
          \<and> \<not> truthy (selectHailuoApiKey user (HAILUO_API_KEY w)) \<longrightarrow>
          handler w req =
            ([DbFindUser uid],
             \<lparr> res_status = 400,
               res_body = ErrorBody msg_key_missing (Some ''API_KEY_MISSING'') \<rparr>))
     \<and> (foodImage foodReq = Some img \<and> img_data img \<noteq> [] \<and> img_mimeType img \<noteq> []
          \<and> truthy (englishPrompt foodReq)
          \<and> findUserById w uid = Inr user
          \<and> \<not> truthy (selectHailuoApiKey user (HAILUO_API_KEY w)) \<longrightarrow>
          food_handler_start w foodReq uid =
            ([DbFindUser uid],
             FoodRespond
               \<lparr> res_status = 400,
                 res_body = ErrorBody msg_key_missing (Some ''HAILUO_API_KEY_MISSING'') \<rparr>))
     \<and> (isAdmin u \<longrightarrow>
          getOpenAIKeyForUser (Some u) envKey =
            (if truthy envKey then Inr (str_of envKey)
             else if truthy (openaiApiKey u) then Inr (str_of (openaiApiKey u))
             else Inl (JsError msg_openai_key_missing_admin)))
     \<and> (\<not> isAdmin u \<longrightarrow>
          getOpenAIKeyForUser (Some u) envKey =
            (if truthy (openaiApiKey u) then Inr (str_of (openaiApiKey u))
             else if truthy envKey then Inr (str_of envKey)
             else Inl (JsError msg_openai_key_missing)))
     \<and> (getOpenAIKeyForUser someUser envKey = Inl e \<longrightarrow>
          openai_text_request someUser envKey textModel = ([], Inl e))"
    by (auto simp: selectHailuoApiKey_def getOpenAIKeyForUser_def openai_text_request_def
        js_or_def handler_def handler_try_def food_handler_start_def truthy_def str_of_def)
  from keys update show ?thesis by blast
qed

text \<open>
  The theorem at an administrator who has stored keys, with and without the environment
  variables, at a user with a stored Hailuo key and no OpenAI key, and at
  \<open>demo_request\<close> and \<open>food_request\<close> in \<open>keyless_world\<close>, where the user is
  that administrator and the environment variable is not set, and at
  \<open>update_request\<close> with \<open>demo_gemini\<close>.
\<close>

theorem api_key_precedence_witness:
  "selectHailuoApiKey (Some demo_admin) (Some ''env-key'') = Some ''env-key''
   \<and> selectHailuoApiKey (Some demo_admin) None = None
   \<and> selectHailuoApiKey (Some demo_user) (Some ''env-key'') = Some ''user-key''
   \<and> handler keyless_world demo_request =
       ([DbFindUser ''u1''],
        \<lparr> res_status = 400,
          res_body = ErrorBody msg_key_missing (Some ''API_KEY_MISSING'') \<rparr>)
   \<and> food_handler_start keyless_world food_request ''u1'' =
       ([DbFindUser ''u1''],
        FoodRespond
          \<lparr> res_status = 400,
            res_body = ErrorBody msg_key_missing (Some ''HAILUO_API_KEY_MISSING'') \<rparr>)
   \<and> getOpenAIKeyForUser (Some demo_admin) (Some ''env-openai'') = Inr ''env-openai''
   \<and> getOpenAIKeyForUser (Some demo_admin) None = Inr ''admin-openai-key''
   \<and> getOpenAIKeyForUser (Some demo_user) None = Inl (JsError msg_openai_key_missing)
   \<and> openai_text_request (Some demo_user) None ''gpt-4o'' =
       ([], Inl (JsError msg_openai_key_missing))
   \<and> fst (update_image_prompt_handler demo_gemini update_request) =
       [GlobalGenerateContent (MODELS_TEXT demo_gemini)
          (update_prompt demo_gemini (upd_reqBody update_request) ''photo of'')]
   \<and> (upd_status (snd (update_image_prompt_handler demo_gemini update_request)) = 200
        \<or> upd_status (snd (update_image_prompt_handler demo_gemini update_request)) = 500)"
proof -
  note at_update =
    api_key_precedence
      [where updReq = update_request and g = demo_gemini and styleText = "''photo of''"]
  note at_admin_env =
    api_key_precedence [where u = demo_admin and envKey = "Some ''env-key''"]
  note at_admin_none =
    api_key_precedence
      [where u = demo_admin and envKey = None and w = keyless_world
         and req = demo_request and uid = "''u1''" and user = "Some demo_admin"
         and img = "\<lparr> img_data = ''AAAA'', img_mimeType = ''image/png'' \<rparr>"]
  note at_food =
    api_key_precedence
      [where w = keyless_world and foodReq = food_request and uid = "''u1''"
         and user = "Some demo_admin"
         and img = "\<lparr> img_data = ''BBBB'', img_mimeType = ''image/jpeg'' \<rparr>"]
  note at_user_env =
    api_key_precedence [where u = demo_user and envKey = "Some ''env-key''"]
  note at_admin_openai =
    api_key_precedence [where u = demo_admin and envKey = "Some ''env-openai''"]
  note at_user_none =
    api_key_precedence
      [where u = demo_user and envKey = None and someUser = "Some demo_user"
         and e = "JsError msg_openai_key_missing" and textModel = "''gpt-4o''"]
  have "selectHailuoApiKey (Some demo_admin) (Some ''env-key'') = Some ''env-key''"
    using at_admin_env by (simp add: demo_admin_def)
  moreover have "selectHailuoApiKey (Some demo_admin) None = None"
    using at_admin_none by (simp add: demo_admin_def)
  moreover have "selectHailuoApiKey (Some demo_user) (Some ''env-key'') = Some ''user-key''"
    using at_user_env by (simp add: demo_user_def truthy_def)
  moreover have "handler keyless_world demo_request =
       ([DbFindUser ''u1''],
        \<lparr> res_status = 400,
          res_body = ErrorBody msg_key_missing (Some ''API_KEY_MISSING'') \<rparr>)"
    using at_admin_none
    by (simp add: demo_admin_def demo_request_def keyless_world_def demo_world_def
        truthy_def)
  moreover have "food_handler_start keyless_world food_request ''u1'' =
       ([DbFindUser ''u1''],
        FoodRespond
          \<lparr> res_status = 400,
            res_body = ErrorBody msg_key_missing (Some ''HAILUO_API_KEY_MISSING'') \<rparr>)"
    using at_food \<open>selectHailuoApiKey (Some demo_admin) None = None\<close>
    by (simp add: food_request_def keyless_world_def demo_world_def truthy_def)
  moreover have
    "getOpenAIKeyForUser (Some demo_admin) (Some ''env-openai'') = Inr ''env-openai''"
    using at_admin_openai by (simp add: demo_admin_def truthy_def str_of_def)
  moreover have "getOpenAIKeyForUser (Some demo_admin) None = Inr ''admin-openai-key''"
    using at_admin_none by (simp add: demo_admin_def truthy_def str_of_def)
  moreover have
    "getOpenAIKeyForUser (Some demo_user) None = Inl (JsError msg_openai_key_missing)"
    using at_user_none by (simp add: demo_user_def truthy_def)
  moreover have "openai_text_request (Some demo_user) None ''gpt-4o'' =
       ([], Inl (JsError msg_openai_key_missing))"
    using at_user_none by (simp add: demo_user_def truthy_def)
  moreover have
    "fst (update_image_prompt_handler demo_gemini update_request) =
       [GlobalGenerateContent (MODELS_TEXT demo_gemini)
          (update_prompt demo_gemini (upd_reqBody update_request) ''photo of'')]
     \<and> (upd_status (snd (update_image_prompt_handler demo_gemini update_request)) = 200
          \<or> upd_status (snd (update_image_prompt_handler demo_gemini update_request)) = 500)"
  proof -
    have "upd_method update_request = ''POST''"
      and "truthy (visualDescription (upd_reqBody update_request))"
      and "trim (str_of (visualDescription (upd_reqBody update_request))) \<noteq> []"
      and "update_stylePromptText demo_gemini (upd_reqBody update_request) = Some ''photo of''"
      by (simp_all add: update_request_def demo_gemini_def update_stylePromptText_def
          update_imageStyle_def js_or_def truthy_def str_of_def
          trim_def trimStart_def trimEnd_def white_space_def drop_leading.simps)
    with at_update show ?thesis by blast
  qed
  ultimately show ?thesis by simp
qed

end
